theory Spec2Isabelle
  imports Main "HOL-Library.Sublist"
begin

section \<open>Strings\<close>

text \<open>
  A Python \<open>str\<close> is a sequence of Unicode code points; it is modelled as a list of
  natural numbers, one per code point.  String constants of the source are written as
  Isabelle string literals and converted with \<open>str\<close>.
\<close>

type_synonym pystr = "nat list"

definition str :: "string \<Rightarrow> pystr" where
  "str s = map of_char s"

section \<open>config.py: ConfigManager.get_masked_token\<close>

text \<open>
  \<^verbatim>\<open>
  def get_masked_token(self, token: str) -> str:
      if not token or len(token) < 12:
          return "***"
      prefix = token[:9] if len(token) > 9 else token[:3]
      suffix = token[-4:] if len(token) > 4 else ""
      return f"{prefix}...{suffix}"
  \<close>
  The slice \<open>token[-4:]\<close> of a string with more than four characters is its last four
  characters.
\<close>

definition get_masked_token :: "pystr \<Rightarrow> pystr" where
  "get_masked_token token =
     (if token = [] \<or> length token < 12 then str ''***''
      else
        let prefix = (if length token > 9 then take 9 token else take 3 token);
            suffix = (if length token > 4 then drop (length token - 4) token else [])
        in prefix @ str ''...'' @ suffix)"

section \<open>api_client.py: YandexAPIClient.validate_scopes\<close>

text \<open>
  \<^verbatim>\<open>
  REQUIRED_SCOPES = {
      "disk": ["cloud_api:disk.read", "cloud_api:disk.write"],
      "users": ["directory:read_users", "directory:write_users"],
  }
  \<close>
\<close>

definition REQUIRED_SCOPES_disk :: "pystr list" where
  "REQUIRED_SCOPES_disk = [str ''cloud_api:disk.read'', str ''cloud_api:disk.write'']"

definition REQUIRED_SCOPES_users :: "pystr list" where
  "REQUIRED_SCOPES_users = [str ''directory:read_users'', str ''directory:write_users'']"

text \<open>
  The two loops of \<open>validate_scopes\<close> have the same shape:
  \<^verbatim>\<open>
  has_disk = False
  for scope in self.REQUIRED_SCOPES["disk"]:
      if scope in scopes_set:
          has_disk = True
          break
  \<close>
  \<open>has_any required scopes_set\<close> is the value of the flag after the loop.
\<close>

fun has_any :: "pystr list \<Rightarrow> pystr set \<Rightarrow> bool" where
  "has_any [] scopes_set = False"
| "has_any (scope # rest) scopes_set =
     (if scope \<in> scopes_set then True else has_any rest scopes_set)"

definition validate_scopes :: "pystr list \<Rightarrow> bool \<times> pystr list" where
  "validate_scopes scopes =
     (let scopes_set = set scopes;
          missing_scopes = [];
          has_disk = has_any REQUIRED_SCOPES_disk scopes_set;
          missing_scopes =
            (if \<not> has_disk then missing_scopes @ [str ''cloud_api:disk.read'']
             else missing_scopes);
          has_users = has_any REQUIRED_SCOPES_users scopes_set;
          missing_scopes =
            (if \<not> has_users then missing_scopes @ [str ''directory:read_users'']
             else missing_scopes);
          is_valid = (length missing_scopes = 0)
      in (is_valid, missing_scopes))"

section \<open>The Python library functions that url\_parser.py calls\<close>

text \<open>
  \<open>url_parser.py\<close> calls \<open>str.strip\<close>, \<open>str.startswith\<close>, the \<open>in\<close> operator on
  strings, \<open>re.match\<close> and, from \<open>urllib.parse\<close>, \<open>urlparse\<close>, \<open>parse_qs\<close> and
  \<open>unquote\<close>.  They are modelled after CPython 3.11.  Two checks that \<open>urlsplit\<close>
  delegates to other modules are parameters of the model: the NFKC normalisation of
  \<open>unicodedata\<close> and the validation of a bracketed host by \<open>ipaddress\<close>.  The third
  parameter, the conversion \<open>int(s)\<close> of a string, is used by \<open>api_client.py\<close>.
\<close>

record pylib =
  nfkc :: "pystr \<Rightarrow> pystr"
  bracketed_host_valid :: "pystr \<Rightarrow> bool"
  int_of_str :: "pystr \<Rightarrow> int option"

datatype url_msg =
    EmptyUrl  \<comment> \<open>"the URL must not be empty"\<close>
  | NotDiskLink pystr  \<comment> \<open>"the URL is not a Yandex Disk link: \{netloc\}"\<close>
  | NoHashOrPath  \<comment> \<open>"the URL has no hash parameter and no proper /d/ path"\<close>
  | UnsupportedFormat  \<comment> \<open>"the URL has none of the supported formats: 1. ... 2. ... 3. ..."\<close>

datatype request_exception =
    HTTPError nat  \<comment> \<open>raised by \<open>raise_for_status\<close>, with the status code of the response\<close>
  | JSONDecodeError  \<comment> \<open>raised by \<open>response.json()\<close>\<close>
  | ConnectionError  \<comment> \<open>any other \<open>RequestException\<close> of \<open>session.get\<close>\<close>

datatype api_msg =
    WhoamiFailed request_exception  \<comment> \<open>"error calling whoami: \{e\}"\<close>
  | OwnerIncomplete  \<comment> \<open>"owner found, but the data is incomplete"\<close>
  | OwnerNotFound  \<comment> \<open>"resource owner not found in the access data"\<close>
  | ResourceNotFound  \<comment> \<open>"public resource not found or not of your organisation"\<close>
  | ResourceForbidden  \<comment> \<open>"insufficient rights to access the resource information"\<close>
  | InvalidToken  \<comment> \<open>"invalid authorisation token"\<close>
  | HttpErrorOther nat request_exception  \<comment> \<open>"HTTP error \{status\_code\}: \{e\}"\<close>
  | ResourceRequestFailed request_exception  \<comment> \<open>"error getting the resource information: \{e\}"\<close>
  | UserNotFound int int  \<comment> \<open>"user with ID \{user\_id\} not found in organisation \{org\_id\}"\<close>
  | UserForbidden  \<comment> \<open>"insufficient rights to get the user information"\<close>
  | UserRequestFailed request_exception  \<comment> \<open>"error getting the user information: \{e\}"\<close>

datatype exn =
    URLParseError url_msg
  | YandexAPIError api_msg
  | RequestException request_exception
  | ValueError
  | TypeError
  | AttributeError
  | IndexError
  | UnicodeEncodeError
  | EOFError

subsection \<open>Strings: strip, startswith, in\<close>

definition isspace :: "nat \<Rightarrow> bool" where
  "isspace c \<longleftrightarrow>
     (0x09 \<le> c \<and> c \<le> 0x0D) \<or> (0x1C \<le> c \<and> c \<le> 0x20) \<or> c = 0x85 \<or> c = 0xA0 \<or>
     c = 0x1680 \<or> (0x2000 \<le> c \<and> c \<le> 0x200A) \<or> c = 0x2028 \<or> c = 0x2029 \<or>
     c = 0x202F \<or> c = 0x205F \<or> c = 0x3000"

definition strip :: "pystr \<Rightarrow> pystr" where
  "strip s = rev (dropWhile isspace (rev (dropWhile isspace s)))"

definition startswith :: "pystr \<Rightarrow> pystr \<Rightarrow> bool" where
  "startswith s p \<longleftrightarrow> take (length p) s = p"

text \<open>\<open>contains sub s\<close> is Python's \<open>sub in s\<close>.\<close>

fun contains :: "pystr \<Rightarrow> pystr \<Rightarrow> bool" where
  "contains sub [] \<longleftrightarrow> sub = []"
| "contains sub (c # s) \<longleftrightarrow> startswith (c # s) sub \<or> contains sub s"

text \<open>\<open>s.partition(c)\<close> for a single character: the text before the first \<open>c\<close>, and
  the text after it (empty when there is no \<open>c\<close>).\<close>

definition before :: "nat \<Rightarrow> pystr \<Rightarrow> pystr" where
  "before c s = takeWhile (\<lambda>x. x \<noteq> c) s"

definition after :: "nat \<Rightarrow> pystr \<Rightarrow> pystr" where
  "after c s = drop 1 (dropWhile (\<lambda>x. x \<noteq> c) s)"

text \<open>\<open>s.split(c)\<close> for a single character.\<close>

fun split_on :: "nat \<Rightarrow> pystr \<Rightarrow> pystr list" where
  "split_on c [] = [[]]"
| "split_on c (x # xs) =
     (if x = c then [] # split_on c xs
      else (case split_on c xs of [] \<Rightarrow> [[x]] | y # ys \<Rightarrow> (x # y) # ys))"

subsection \<open>Character classes\<close>

definition is_lower :: "nat \<Rightarrow> bool" where
  "is_lower c \<longleftrightarrow> 97 \<le> c \<and> c \<le> 122"

definition is_upper :: "nat \<Rightarrow> bool" where
  "is_upper c \<longleftrightarrow> 65 \<le> c \<and> c \<le> 90"

definition is_digit :: "nat \<Rightarrow> bool" where
  "is_digit c \<longleftrightarrow> 48 \<le> c \<and> c \<le> 57"

definition is_alnum :: "nat \<Rightarrow> bool" where
  "is_alnum c \<longleftrightarrow> is_lower c \<or> is_upper c \<or> is_digit c"

text \<open>The class \<^verbatim>\<open>[a-zA-Z0-9\-]\<close> of the short-link pattern.\<close>

definition is_token_char :: "nat \<Rightarrow> bool" where
  "is_token_char c \<longleftrightarrow> is_alnum c \<or> c = 45"

text \<open>The class \<^verbatim>\<open>[a-zA-Z0-9+/]\<close> of the hash pattern.\<close>

definition is_hash_char :: "nat \<Rightarrow> bool" where
  "is_hash_char c \<longleftrightarrow> is_alnum c \<or> c = 43 \<or> c = 47"

subsection \<open>re.match with the three patterns of the module\<close>

text \<open>
  \<open>re.match\<close> looks for a match at the start of the string; the string may go on after
  it.  \<open>match_literal lit s\<close> consumes the literal and returns the rest.
\<close>

definition match_literal :: "pystr \<Rightarrow> pystr \<Rightarrow> pystr option" where
  "match_literal lit s = (if startswith s lit then Some (drop (length lit) s) else None)"

text \<open>
  \<^verbatim>\<open>https?://disk\.yandex\.ru/d/\<close>, the pattern of \<open>get_url_type\<close>; the result is the
  text after the match.  The optional \<open>s\<close> is taken when it is there: without it the
  next character of the pattern, a colon, cannot match an \<open>s\<close>.
\<close>

definition match_disk_d :: "pystr \<Rightarrow> pystr option" where
  "match_disk_d url =
     (case match_literal (str ''http'') url of
        None \<Rightarrow> None
      | Some r \<Rightarrow>
          match_literal (str ''://disk.yandex.ru/d/'')
            (case r of [] \<Rightarrow> r | c # r' \<Rightarrow> if c = 115 then r' else r))"

text \<open>\<^verbatim>\<open>https?://disk\.yandex\.ru/d/([a-zA-Z0-9\-]+)\<close>, the pattern of \<open>normalize_url\<close>.\<close>

definition match_short_pattern :: "pystr \<Rightarrow> bool" where
  "match_short_pattern url =
     (case match_disk_d url of
        None \<Rightarrow> False
      | Some [] \<Rightarrow> False
      | Some (c # r) \<Rightarrow> is_token_char c)"

text \<open>
  \<^verbatim>\<open>^[a-zA-Z0-9+/]+=*$\<close>.  \<open>=\<close> is not in the class, so the class matches the longest
  run of its characters; \<open>$\<close> matches at the end of the string and before a newline
  that ends the string.
\<close>

definition match_hash_pattern :: "pystr \<Rightarrow> bool" where
  "match_hash_pattern url =
     (let rest = dropWhile (\<lambda>c. c = 61) (dropWhile is_hash_char url)
      in takeWhile is_hash_char url \<noteq> [] \<and> (rest = [] \<or> rest = [10]))"

subsection \<open>urllib.parse.unquote\<close>

definition is_hexdig :: "nat \<Rightarrow> bool" where
  "is_hexdig c \<longleftrightarrow> is_digit c \<or> (65 \<le> c \<and> c \<le> 70) \<or> (97 \<le> c \<and> c \<le> 102)"

definition hexval :: "nat \<Rightarrow> nat" where
  "hexval c = (if is_digit c then c - 48 else if c \<le> 70 then c - 55 else c - 87)"

text \<open>
  \<open>unquote_to_bytes\<close> on ASCII text: the text is split at \<open>%\<close>; a piece that starts
  with two hexadecimal digits gives the byte they denote and the rest of the piece,
  any other piece keeps its \<open>%\<close>.
\<close>

fun unquote_to_bytes :: "pystr \<Rightarrow> nat list" where
  "unquote_to_bytes [] = []"
| "unquote_to_bytes (c # cs) =
     (if c = 37 then
        (case cs of
           h1 # h2 # rest \<Rightarrow>
             if is_hexdig h1 \<and> is_hexdig h2
             then (16 * hexval h1 + hexval h2) # unquote_to_bytes rest
             else 37 # unquote_to_bytes cs
         | _ \<Rightarrow> 37 # unquote_to_bytes cs)
      else c # unquote_to_bytes cs)"

text \<open>
  \<open>bytes.decode('utf-8', 'replace')\<close>.  \<open>utf8_first b rest\<close> decodes the sequence that
  starts with the byte \<open>b\<close>: it returns the code point and how many bytes of \<open>rest\<close> the
  sequence takes.  An ill-formed sequence gives U+FFFD for its longest well-formed
  start, a truncated one at the end of the input gives one U+FFFD.
\<close>

definition is_cont :: "nat \<Rightarrow> bool" where
  "is_cont b \<longleftrightarrow> 0x80 \<le> b \<and> b \<le> 0xBF"

definition utf8_first :: "nat \<Rightarrow> nat list \<Rightarrow> nat \<times> nat" where
  "utf8_first b rest =
     (if b < 0x80 then (b, 0)
      else if b < 0xC2 then (0xFFFD, 0)
      else if b < 0xE0 then
        (case rest of
           [] \<Rightarrow> (0xFFFD, 0)
         | b2 # _ \<Rightarrow>
             if is_cont b2 then ((b - 0xC0) * 64 + (b2 - 0x80), 1) else (0xFFFD, 0))
      else if b < 0xF0 then
        (case rest of
           [] \<Rightarrow> (0xFFFD, 0)
         | b2 # rest2 \<Rightarrow>
             if \<not> is_cont b2 \<or> (b = 0xE0 \<and> b2 < 0xA0) \<or> (b = 0xED \<and> 0xA0 \<le> b2)
             then (0xFFFD, 0)
             else
               (case rest2 of
                  [] \<Rightarrow> (0xFFFD, 1)
                | b3 # _ \<Rightarrow>
                    if is_cont b3
                    then ((b - 0xE0) * 4096 + (b2 - 0x80) * 64 + (b3 - 0x80), 2)
                    else (0xFFFD, 1)))
      else if b < 0xF5 then
        (case rest of
           [] \<Rightarrow> (0xFFFD, 0)
         | b2 # rest2 \<Rightarrow>
             if \<not> is_cont b2 \<or> (b = 0xF0 \<and> b2 < 0x90) \<or> (b = 0xF4 \<and> 0x90 \<le> b2)
             then (0xFFFD, 0)
             else
               (case rest2 of
                  [] \<Rightarrow> (0xFFFD, 1)
                | b3 # rest3 \<Rightarrow>
                    if \<not> is_cont b3 then (0xFFFD, 1)
                    else
                      (case rest3 of
                         [] \<Rightarrow> (0xFFFD, 2)
                       | b4 # _ \<Rightarrow>
                           if is_cont b4
                           then ((b - 0xF0) * 262144 + (b2 - 0x80) * 4096
                                   + (b3 - 0x80) * 64 + (b4 - 0x80), 3)
                           else (0xFFFD, 2))))
      else (0xFFFD, 0))"

function utf8_decode :: "nat list \<Rightarrow> pystr" where
  "utf8_decode [] = []"
| "utf8_decode (b # rest) =
     (case utf8_first b rest of (cp, n) \<Rightarrow> cp # utf8_decode (drop n rest))"
  by pat_completeness auto
termination
  by (relation "measure length") auto

text \<open>
  \<open>unquote\<close>: a string without \<open>%\<close> is returned as it is; otherwise every longest run
  of ASCII characters is unquoted to bytes and decoded, and the characters between the
  runs are kept.
\<close>

definition is_ascii :: "nat \<Rightarrow> bool" where
  "is_ascii c \<longleftrightarrow> c < 128"

function unquote_runs :: "pystr \<Rightarrow> pystr" where
  "unquote_runs [] = []"
| "unquote_runs (c # s) =
     (if is_ascii c
      then utf8_decode (unquote_to_bytes (c # takeWhile is_ascii s))
             @ unquote_runs (dropWhile is_ascii s)
      else c # unquote_runs s)"
  by pat_completeness auto
termination
  by (relation "measure length") (auto simp: length_dropWhile_le less_Suc_eq_le)

definition unquote :: "pystr \<Rightarrow> pystr" where
  "unquote string = (if 37 \<notin> set string then string else unquote_runs string)"

text \<open>\<open>unquote_plus\<close>: \<open>string.replace('+', ' ')\<close>, then \<open>unquote\<close>.\<close>

definition unquote_plus :: "pystr \<Rightarrow> pystr" where
  "unquote_plus string = unquote (map (\<lambda>c. if c = 43 then 32 else c) string)"

subsection \<open>urllib.parse.urlparse\<close>

record parse_result =
  scheme :: pystr
  netloc :: pystr
  path :: pystr
  params :: pystr
  query :: pystr
  fragment :: pystr

text \<open>The characters of \<open>scheme_chars\<close>: ASCII letters, digits, \<open>+\<close>, \<open>-\<close> and \<open>.\<close>\<close>

definition is_scheme_char :: "nat \<Rightarrow> bool" where
  "is_scheme_char c \<longleftrightarrow> is_alnum c \<or> c = 43 \<or> c = 45 \<or> c = 46"

text \<open>\<open>str.lower\<close> on a string of \<open>scheme_chars\<close>.\<close>

definition lower_ascii :: "pystr \<Rightarrow> pystr" where
  "lower_ascii s = map (\<lambda>c. if is_upper c then c + 32 else c) s"

definition uses_params :: "pystr list" where
  "uses_params =
     [[], str ''ftp'', str ''hdl'', str ''prospero'', str ''http'', str ''imap'',
      str ''https'', str ''shttp'', str ''rtsp'', str ''rtsps'', str ''rtspu'',
      str ''sip'', str ''sips'', str ''mms'', str ''sftp'', str ''tel'']"

text \<open>The delimiters \<open>/\<close>, \<open>?\<close> and \<open>#\<close> that end the network location.\<close>

definition is_netloc_delim :: "nat \<Rightarrow> bool" where
  "is_netloc_delim c \<longleftrightarrow> c = 47 \<or> c = 63 \<or> c = 35"

text \<open>
  \<open>_checknetloc\<close>: for a network location with a character beyond ASCII, the characters
  \<open>@\<close>, \<open>:\<close>, \<open>#\<close> and \<open>?\<close> are removed and the rest is normalised; when that
  changes it and the result has one of \<open>/?#@:\<close>, the URL is refused.
\<close>

definition checknetloc :: "pylib \<Rightarrow> pystr \<Rightarrow> exn + unit" where
  "checknetloc L nl =
     (if nl = [] \<or> list_all is_ascii nl then Inr ()
      else
        let n = filter (\<lambda>c. c \<noteq> 64 \<and> c \<noteq> 58 \<and> c \<noteq> 35 \<and> c \<noteq> 63) nl;
            netloc2 = nfkc L n
        in if n = netloc2 then Inr ()
           else if list_ex (\<lambda>c. c = 47 \<or> c = 63 \<or> c = 35 \<or> c = 64 \<or> c = 58) netloc2
           then Inl ValueError
           else Inr ())"

text \<open>
  \<open>urlsplit\<close>, in the order of the library.  First, leading C0 control characters and
  spaces are dropped, and tab, carriage return and newline are removed everywhere:
  \<^verbatim>\<open>
  url = url.lstrip(_WHATWG_C0_CONTROL_OR_SPACE)
  for b in _UNSAFE_URL_BYTES_TO_REMOVE:
      url = url.replace(b, "")
  \<close>
\<close>

definition remove_unsafe :: "pystr \<Rightarrow> pystr" where
  "remove_unsafe url =
     filter (\<lambda>c. c \<noteq> 9 \<and> c \<noteq> 13 \<and> c \<noteq> 10) (dropWhile (\<lambda>c. c \<le> 32) url)"

text \<open>
  A scheme is split off when the text before the first colon is not empty, starts with
  an ASCII letter and has scheme characters only:
  \<^verbatim>\<open>
  i = url.find(':')
  if i > 0 and url[0].isascii() and url[0].isalpha():
      for c in url[:i]:
          if c not in scheme_chars:
              break
      else:
          scheme, url = url[:i].lower(), url[i+1:]
  \<close>
\<close>

definition split_scheme :: "pystr \<Rightarrow> pystr \<times> pystr" where
  "split_scheme url =
     (let i = length (before 58 url)
      in if 58 \<in> set url \<and> i > 0 \<and> (is_lower (hd url) \<or> is_upper (hd url))
              \<and> list_all is_scheme_char (take i url)
         then (lower_ascii (take i url), drop (i + 1) url)
         else ([], url))"

text \<open>\<open>_splitnetloc(url, 2)\<close>: the network location goes up to the first delimiter.\<close>

definition splitnetloc :: "pystr \<Rightarrow> pystr \<times> pystr" where
  "splitnetloc url =
     (takeWhile (\<lambda>c. \<not> is_netloc_delim c) (drop 2 url),
      dropWhile (\<lambda>c. \<not> is_netloc_delim c) (drop 2 url))"

text \<open>
  A bracket without its partner raises \<open>ValueError\<close>, and so does a bracketed host that
  is not valid:
  \<^verbatim>\<open>
  if (('[' in netloc and ']' not in netloc) or
          (']' in netloc and '[' not in netloc)):
      raise ValueError("Invalid IPv6 URL")
  if '[' in netloc and ']' in netloc:
      bracketed_host = netloc.partition('[')[2].partition(']')[0]
      _check_bracketed_host(bracketed_host)
  \<close>
\<close>

definition check_brackets :: "pylib \<Rightarrow> pystr \<Rightarrow> exn + unit" where
  "check_brackets L nl =
     (if (91 \<in> set nl \<and> 93 \<notin> set nl) \<or> (93 \<in> set nl \<and> 91 \<notin> set nl) then Inl ValueError
      else if 91 \<in> set nl \<and> 93 \<in> set nl \<and> \<not> bracketed_host_valid L (before 93 (after 91 nl))
      then Inl ValueError
      else Inr ())"

text \<open>
  The fragment is what follows the first \<open>#\<close>, the query what follows the first \<open>?\<close>
  before it:
  \<^verbatim>\<open>
  if allow_fragments and '#' in url:
      url, fragment = url.split('#', 1)
  if '?' in url:
      url, query = url.split('?', 1)
  \<close>
  The result is the path, the query and the fragment.
\<close>

definition split_fragment_query :: "pystr \<Rightarrow> pystr \<times> pystr \<times> pystr" where
  "split_fragment_query url =
     (let fragment = (if 35 \<in> set url then after 35 url else []);
          url = (if 35 \<in> set url then before 35 url else url)
      in (if 63 \<in> set url then before 63 url else url,
          if 63 \<in> set url then after 63 url else [],
          fragment))"

text \<open>
  \<^verbatim>\<open>
  netloc = query = fragment = ''
  ... the scheme ...
  if url[:2] == '//':
      netloc, url = _splitnetloc(url, 2)
      ... the brackets ...
  ... the fragment and the query ...
  _checknetloc(netloc)
  v = SplitResult(scheme, netloc, url, query, fragment)
  \<close>
\<close>

definition urlsplit :: "pylib \<Rightarrow> pystr \<Rightarrow> exn + parse_result" where
  "urlsplit L url0 =
     (case split_scheme (remove_unsafe url0) of
        (sch, url) \<Rightarrow>
          (case (if take 2 url = [47, 47]
                 then (case check_brackets L (fst (splitnetloc url)) of
                         Inl e \<Rightarrow> Inl e
                       | Inr _ \<Rightarrow> Inr (splitnetloc url))
                 else Inr ([], url)) of
             Inl e \<Rightarrow> Inl e
           | Inr (nl, url') \<Rightarrow>
               (case split_fragment_query url' of
                  (p, q, f) \<Rightarrow>
                    (case checknetloc L nl of
                       Inl e \<Rightarrow> Inl e
                     | Inr _ \<Rightarrow>
                         Inr \<lparr>scheme = sch, netloc = nl, path = p, params = [],
                              query = q, fragment = f\<rparr>))))"

text \<open>
  \<open>_splitparams\<close>: the parameters start at the first \<open>;\<close> of the last path segment.
\<close>

definition splitparams :: "pystr \<Rightarrow> pystr \<times> pystr" where
  "splitparams url =
     (let last_segment = rev (takeWhile (\<lambda>c. c \<noteq> 47) (rev url));
          upto_slash = take (length url - length last_segment) url
      in if 59 \<in> set last_segment
         then (upto_slash @ before 59 last_segment, after 59 last_segment)
         else (url, []))"

definition urlparse :: "pylib \<Rightarrow> pystr \<Rightarrow> exn + parse_result" where
  "urlparse L url =
     (case urlsplit L url of
        Inl e \<Rightarrow> Inl e
      | Inr r \<Rightarrow>
          if scheme r \<in> set uses_params \<and> 59 \<in> set (path r)
          then (case splitparams (path r) of (url', ps) \<Rightarrow> Inr (r\<lparr>path := url', params := ps\<rparr>))
          else Inr r)"

subsection \<open>urllib.parse.parse\_qs\<close>

text \<open>
  \<open>parse_qsl\<close> with its default arguments: the query is split at \<open>&\<close>; a field is split
  at its first \<open>=\<close>; a field with an empty value (or without \<open>=\<close>) is dropped; name and
  value are decoded with \<open>unquote_plus\<close>.
  \<^verbatim>\<open>
  r = []
  for name_value in qs.split(separator):
      if name_value or strict_parsing:
          name, has_eq, value = name_value.partition(eq)
          if not has_eq and strict_parsing:
              raise ValueError(...)
          if value or keep_blank_values:
              name = _unquote(name)
              value = _unquote(value)
              r.append((name, value))
  return r
  \<close>
  \<open>qs_field\<close> is what one turn of the loop appends.
\<close>

definition qs_field :: "pystr \<Rightarrow> (pystr \<times> pystr) list" where
  "qs_field name_value =
     (if name_value \<noteq> [] \<and> after 61 name_value \<noteq> []
      then [(unquote_plus (before 61 name_value), unquote_plus (after 61 name_value))]
      else [])"

definition parse_qsl :: "pystr \<Rightarrow> (pystr \<times> pystr) list" where
  "parse_qsl qs = (if qs = [] then [] else concat (map qs_field (split_on 38 qs)))"

text \<open>\<open>parse_qs\<close> collects, for every name, its values in the order of the query.\<close>

fun collect :: "(pystr \<times> pystr) list \<Rightarrow> (pystr \<rightharpoonup> pystr list) \<Rightarrow> (pystr \<rightharpoonup> pystr list)" where
  "collect [] parsed_result = parsed_result"
| "collect ((name, v) # pairs) parsed_result =
     collect pairs
       (case parsed_result name of
          Some vs \<Rightarrow> parsed_result(name \<mapsto> vs @ [v])
        | None \<Rightarrow> parsed_result(name \<mapsto> [v]))"

definition parse_qs :: "pystr \<Rightarrow> (pystr \<rightharpoonup> pystr list)" where
  "parse_qs qs = collect (parse_qsl qs) Map.empty"

section \<open>url\_parser.py\<close>

text \<open>
  \<^verbatim>\<open>
  def normalize_url(url: str) -> str:
      url = url.strip()
      if not url:
          raise URLParseError("...")
      short_pattern = r'https?://disk\.yandex\.ru/d/([a-zA-Z0-9\-]+)'
      short_match = re.match(short_pattern, url)
      if short_match:
          return url
      if url.startswith('http'):
          parsed = urlparse(url)
          if 'disk.yandex.ru' not in parsed.netloc:
              raise URLParseError(f"...: {parsed.netloc}")
          query_params = parse_qs(parsed.query)
          if 'hash' in query_params:
              hash_value = query_params['hash'][0]
              hash_value = unquote(hash_value)
              return f"https://disk.yandex.ru/public/?hash={hash_value}"
          if '/d/' in parsed.path:
              return url
          raise URLParseError("...")
      hash_pattern = r'^[a-zA-Z0-9+/]+=*$'
      if re.match(hash_pattern, url):
          return url
      raise URLParseError("...")
  \<close>
\<close>

definition normalize_url :: "pylib \<Rightarrow> pystr \<Rightarrow> exn + pystr" where
  "normalize_url L url0 =
     (let url = strip url0
      in if url = [] then Inl (URLParseError EmptyUrl)
         else if match_short_pattern url then Inr url
         else if startswith url (str ''http'') then
           (case urlparse L url of
              Inl e \<Rightarrow> Inl e
            | Inr parsed \<Rightarrow>
                if \<not> contains (str ''disk.yandex.ru'') (netloc parsed)
                then Inl (URLParseError (NotDiskLink (netloc parsed)))
                else
                  (case parse_qs (query parsed) (str ''hash'') of
                     Some [] \<Rightarrow> Inl IndexError
                   | Some (hash_value # _) \<Rightarrow>
                       Inr (str ''https://disk.yandex.ru/public/?hash='' @ unquote hash_value)
                   | None \<Rightarrow>
                       if contains (str ''/d/'') (path parsed) then Inr url
                       else Inl (URLParseError NoHashOrPath)))
         else if match_hash_pattern url then Inr url
         else Inl (URLParseError UnsupportedFormat))"

text \<open>
  \<^verbatim>\<open>
  def is_valid_disk_url(url: str) -> bool:
      try:
          normalize_url(url)
          return True
      except URLParseError:
          return False
  \<close>
\<close>

definition is_valid_disk_url :: "pylib \<Rightarrow> pystr \<Rightarrow> exn + bool" where
  "is_valid_disk_url L url =
     (case normalize_url L url of
        Inr _ \<Rightarrow> Inr True
      | Inl (URLParseError _) \<Rightarrow> Inr False
      | Inl e \<Rightarrow> Inl e)"

text \<open>
  \<^verbatim>\<open>
  def get_url_type(url: str) -> str:
      url = url.strip()
      if re.match(r'https?://disk\.yandex\.ru/d/', url):
          return "short"
      if url.startswith('http'):
          parsed = urlparse(url)
          if 'disk.yandex.ru' in parsed.netloc:
              query_params = parse_qs(parsed.query)
              if 'hash' in query_params:
                  return "full"
      hash_pattern = r'^[a-zA-Z0-9+/]+=*$'
      if re.match(hash_pattern, url):
          return "hash"
      return "unknown"
  \<close>
\<close>

definition get_url_type :: "pylib \<Rightarrow> pystr \<Rightarrow> exn + pystr" where
  "get_url_type L url0 =
     (let url = strip url0;
          hash_or_unknown =
            (if match_hash_pattern url then Inr (str ''hash'') else Inr (str ''unknown''))
      in if match_disk_d url \<noteq> None then Inr (str ''short'')
         else if startswith url (str ''http'') then
           (case urlparse L url of
              Inl e \<Rightarrow> Inl e
            | Inr parsed \<Rightarrow>
                if contains (str ''disk.yandex.ru'') (netloc parsed)
                     \<and> parse_qs (query parsed) (str ''hash'') \<noteq> None
                then Inr (str ''full'')
                else hash_or_unknown)
         else hash_or_unknown)"

section \<open>JSON values and HTTP responses\<close>

text \<open>
  What \<open>response.json()\<close> returns.  A number is an integer here; a \<open>dict\<close> is the list
  of its items, looked up with \<open>map_of\<close>.
\<close>

datatype json =
    JNull
  | JBool bool
  | JNum int
  | JStr pystr
  | JArr "json list"
  | JObj "(pystr \<times> json) list"

text \<open>\<open>d.get(key)\<close>: \<open>None\<close> when the key is missing.\<close>

definition dict_get :: "(pystr \<times> json) list \<Rightarrow> pystr \<Rightarrow> json" where
  "dict_get d key = (case map_of d key of None \<Rightarrow> JNull | Some v \<Rightarrow> v)"

text \<open>\<open>d.get(key, default)\<close>.\<close>

definition dict_get_default :: "(pystr \<times> json) list \<Rightarrow> pystr \<Rightarrow> json \<Rightarrow> json" where
  "dict_get_default d key dflt = (case map_of d key of None \<Rightarrow> dflt | Some v \<Rightarrow> v)"

text \<open>The values a \<open>for\<close> loop over a JSON value runs through: the elements of a list,
  the keys of a \<open>dict\<close>, the characters of a string; the other values are not iterable.\<close>

definition py_iter :: "json \<Rightarrow> exn + json list" where
  "py_iter v =
     (case v of
        JArr xs \<Rightarrow> Inr xs
      | JObj d \<Rightarrow> Inr (map (\<lambda>kv. JStr (fst kv)) d)
      | JStr s \<Rightarrow> Inr (map (\<lambda>c. JStr [c]) s)
      | _ \<Rightarrow> Inl TypeError)"

text \<open>\<open>int(v)\<close> of a value that is not \<open>None\<close>.\<close>

definition py_int :: "pylib \<Rightarrow> json \<Rightarrow> exn + int" where
  "py_int L v =
     (case v of
        JNum n \<Rightarrow> Inr n
      | JBool b \<Rightarrow> Inr (if b then 1 else 0)
      | JStr s \<Rightarrow> (case int_of_str L s of None \<Rightarrow> Inl ValueError | Some n \<Rightarrow> Inr n)
      | _ \<Rightarrow> Inl TypeError)"

text \<open>The truth value of a JSON value in a condition.\<close>

definition truthy :: "json \<Rightarrow> bool" where
  "truthy v =
     (case v of
        JNull \<Rightarrow> False
      | JBool b \<Rightarrow> b
      | JNum n \<Rightarrow> n \<noteq> 0
      | JStr s \<Rightarrow> s \<noteq> []
      | JArr xs \<Rightarrow> xs \<noteq> []
      | JObj d \<Rightarrow> d \<noteq> [])"

text \<open>A response of the server: its status code and its body, \<open>None\<close> when the body
  is not JSON.\<close>

record response =
  status_code :: nat
  body :: "json option"

definition raise_for_status :: "response \<Rightarrow> request_exception + unit" where
  "raise_for_status r =
     (if 400 \<le> status_code r \<and> status_code r < 600 then Inl (HTTPError (status_code r))
      else Inr ())"

definition response_json :: "response \<Rightarrow> request_exception + json" where
  "response_json r = (case body r of None \<Rightarrow> Inl JSONDecodeError | Some j \<Rightarrow> Inr j)"

text \<open>
  The remote service, as the session of the client sees it: what \<open>session.get\<close> gives
  for the identity endpoint, for the owner lookup with a \<open>public_key\<close> parameter, and
  for the profile of a user of an organisation.
\<close>

record remote =
  whoami_get :: "request_exception + response"
  owner_get :: "pystr \<Rightarrow> request_exception + response"
  user_get :: "int \<Rightarrow> int \<Rightarrow> request_exception + response"

text \<open>
  The three statements that open each \<open>try\<close> block of the client:
  \<^verbatim>\<open>
  response = self.session.get(...)
  response.raise_for_status()
  ... response.json()
  \<close>
\<close>

definition fetch_json :: "request_exception + response \<Rightarrow> request_exception + json" where
  "fetch_json got =
     (case got of
        Inl e \<Rightarrow> Inl e
      | Inr r \<Rightarrow> (case raise_for_status r of Inl e \<Rightarrow> Inl e | Inr _ \<Rightarrow> response_json r))"

subsection \<open>urllib.parse.quote with safe=''\<close>

definition utf8_encode_char :: "nat \<Rightarrow> nat list option" where
  "utf8_encode_char c =
     (if c < 0x80 then Some [c]
      else if c < 0x800 then Some [0xC0 + c div 64, 0x80 + c mod 64]
      else if 0xD800 \<le> c \<and> c \<le> 0xDFFF then None
      else if c < 0x10000
      then Some [0xE0 + c div 4096, 0x80 + (c div 64) mod 64, 0x80 + c mod 64]
      else Some [0xF0 + c div 262144, 0x80 + (c div 4096) mod 64,
                 0x80 + (c div 64) mod 64, 0x80 + c mod 64])"

definition hexdigit :: "nat \<Rightarrow> nat" where
  "hexdigit n = (if n < 10 then 48 + n else 55 + n)"

definition quote_byte :: "nat \<Rightarrow> pystr" where
  "quote_byte b =
     (if is_alnum b \<or> b = 95 \<or> b = 46 \<or> b = 45 \<or> b = 126 then [b]
      else [37, hexdigit (b div 16), hexdigit (b mod 16)])"

fun quote :: "pystr \<Rightarrow> exn + pystr" where
  "quote [] = Inr []"
| "quote (c # s) =
     (case utf8_encode_char c of
        None \<Rightarrow> Inl UnicodeEncodeError
      | Some bs \<Rightarrow>
          (case quote s of
             Inl e \<Rightarrow> Inl e
           | Inr q \<Rightarrow> Inr (concat (map quote_byte bs) @ q)))"

section \<open>api\_client.py\<close>

text \<open>
  \<^verbatim>\<open>
  def whoami(self) -> Dict:
      url = f"{self.DIRECTORY_API_BASE}/whoami"
      try:
          response = self.session.get(url)
          response.raise_for_status()
          return response.json()
      except requests.exceptions.RequestException as e:
          raise YandexAPIError(f"... whoami: {e}")
  \<close>
\<close>

definition whoami :: "remote \<Rightarrow> exn + json" where
  "whoami R =
     (case fetch_json (whoami_get R) of
        Inr data \<Rightarrow> Inr data
      | Inl e \<Rightarrow> Inl (YandexAPIError (WhoamiFailed e)))"

text \<open>
  The loop of \<open>get_resource_owner\<close>:
  \<^verbatim>\<open>
  for access in accesses:
      if access.get("type") == "owner":
          owner_uid = access.get("id")
          org_id = access.get("org_id")
          if owner_uid is None or org_id is None:
              raise YandexAPIError("...")
          return int(owner_uid), int(org_id)
  raise YandexAPIError("...")
  \<close>
  Only a \<open>dict\<close> has the method \<open>get\<close>.
\<close>

fun find_owner :: "pylib \<Rightarrow> json list \<Rightarrow> exn + int \<times> int" where
  "find_owner L [] = Inl (YandexAPIError OwnerNotFound)"
| "find_owner L (access # accesses) =
     (case access of
        JObj d \<Rightarrow>
          if dict_get d (str ''type'') = JStr (str ''owner'') then
            (let owner_uid = dict_get d (str ''id'');
                 org_id = dict_get d (str ''org_id'')
             in if owner_uid = JNull \<or> org_id = JNull
                then Inl (YandexAPIError OwnerIncomplete)
                else
                  (case py_int L owner_uid of
                     Inl e \<Rightarrow> Inl e
                   | Inr u \<Rightarrow>
                       (case py_int L org_id of Inl e \<Rightarrow> Inl e | Inr g \<Rightarrow> Inr (u, g))))
          else find_owner L accesses
      | _ \<Rightarrow> Inl AttributeError)"

text \<open>
  \<^verbatim>\<open>
  def get_resource_owner(self, public_url: str) -> Tuple[int, int]:
      url = f"{self.DISK_API_BASE}/v1/disk/public/resources/admin/public-settings"
      encoded_key = quote(public_url, safe='')
      params = {"public_key": encoded_key}
      try:
          response = self.session.get(url, params=params)
          response.raise_for_status()
          data = response.json()
          accesses = data.get("accesses", [])
          for access in accesses: ...
          raise YandexAPIError("...")
      except requests.exceptions.HTTPError as e:
          if e.response.status_code == 404:
              raise YandexAPIError("...")
          elif e.response.status_code == 403:
              raise YandexAPIError("...")
          elif e.response.status_code == 401:
              raise YandexAPIError("...")
          else:
              raise YandexAPIError(f"... HTTP {e.response.status_code}: {e}")
      except requests.exceptions.RequestException as e:
          raise YandexAPIError(f"...: {e}")
  \<close>
\<close>

definition get_resource_owner :: "pylib \<Rightarrow> remote \<Rightarrow> pystr \<Rightarrow> exn + int \<times> int" where
  "get_resource_owner L R public_url =
     (case quote public_url of
        Inl e \<Rightarrow> Inl e
      | Inr encoded_key \<Rightarrow>
          (case fetch_json (owner_get R encoded_key) of
             Inr data \<Rightarrow>
               (case data of
                  JObj d \<Rightarrow>
                    (case py_iter (dict_get_default d (str ''accesses'') (JArr [])) of
                       Inl e \<Rightarrow> Inl e
                     | Inr accesses \<Rightarrow> find_owner L accesses)
                | _ \<Rightarrow> Inl AttributeError)
           | Inl (HTTPError code) \<Rightarrow>
               if code = 404 then Inl (YandexAPIError ResourceNotFound)
               else if code = 403 then Inl (YandexAPIError ResourceForbidden)
               else if code = 401 then Inl (YandexAPIError InvalidToken)
               else Inl (YandexAPIError (HttpErrorOther code (HTTPError code)))
           | Inl e \<Rightarrow> Inl (YandexAPIError (ResourceRequestFailed e))))"

text \<open>
  \<^verbatim>\<open>
  def get_user_info(self, org_id: int, user_id: int) -> Dict:
      url = f"{self.DIRECTORY_API_BASE}/directory/v1/org/{org_id}/users/{user_id}"
      try:
          response = self.session.get(url)
          response.raise_for_status()
          return response.json()
      except requests.exceptions.HTTPError as e:
          if e.response.status_code == 404:
              raise YandexAPIError(f"... {user_id} ... {org_id}")
          elif e.response.status_code == 403:
              raise YandexAPIError("...")
          elif e.response.status_code == 401:
              raise YandexAPIError("...")
          else:
              raise YandexAPIError(f"... HTTP {e.response.status_code}: {e}")
      except requests.exceptions.RequestException as e:
          raise YandexAPIError(f"...: {e}")
  \<close>
\<close>

definition get_user_info :: "remote \<Rightarrow> int \<Rightarrow> int \<Rightarrow> exn + json" where
  "get_user_info R org_id user_id =
     (case fetch_json (user_get R org_id user_id) of
        Inr data \<Rightarrow> Inr data
      | Inl (HTTPError code) \<Rightarrow>
          if code = 404 then Inl (YandexAPIError (UserNotFound user_id org_id))
          else if code = 403 then Inl (YandexAPIError UserForbidden)
          else if code = 401 then Inl (YandexAPIError InvalidToken)
          else Inl (YandexAPIError (HttpErrorOther code (HTTPError code)))
      | Inl e \<Rightarrow> Inl (YandexAPIError (UserRequestFailed e)))"

section \<open>config.py: the stored configuration\<close>

text \<open>
  The configuration file: whether it exists, and the two values \<open>load\<close> reads from it.
  \<^verbatim>\<open>
  def load(self) -> Tuple[Optional[str], Optional[str]]:
      if not self.exists():
          return None, None
      load_dotenv(self.env_file)
      token = os.getenv("API_TOKEN")
      org_id = os.getenv("ORG_ID")
      return token, org_id
  \<close>
\<close>

record config =
  env_file_exists :: bool
  API_TOKEN :: "pystr option"
  ORG_ID :: "pystr option"

definition load :: "config \<Rightarrow> pystr option \<times> pystr option" where
  "load c = (if \<not> env_file_exists c then (None, None) else (API_TOKEN c, ORG_ID c))"

section \<open>ui.py\<close>

text \<open>
  What the user interface shows is recorded as a list of events, together with the
  calls of the client.  The texts are constructors: the messages of the source are
  Russian sentences.
\<close>

datatype step =
    CheckingUrl  \<comment> \<open>\<open>show_processing\<close> before \<open>normalize_url\<close>\<close>
  | FetchingResource  \<comment> \<open>\<open>show_processing\<close> before \<open>get_resource_owner\<close>\<close>
  | FetchingUser  \<comment> \<open>\<open>show_processing\<close> before \<open>get_user_info\<close>\<close>

datatype error_text =
    UrlIsEmpty  \<comment> \<open>"the URL must not be empty", in \<open>main_loop\<close>\<close>
  | InvalidUrl url_msg  \<comment> \<open>"invalid URL: \{e\}"\<close>
  | ApiFailure api_msg  \<comment> \<open>\<open>str(e)\<close>\<close>
  | Unexpected exn  \<comment> \<open>"unexpected error: \{e\}"\<close>

datatype field = UID | Login | Email | FirstName | LastName

datatype event =
    ShowWelcome
  | ShowMainInstructions
  | ShowProcessing step
  | ShowError error_text
  | ShowUserInfo "(field \<times> json option) list"
  | ShowGoodbye
  | CallGetResourceOwner pystr
  | CallGetUserInfo int int
  | CloseClient

text \<open>
  \<^verbatim>\<open>
  def show_user_info(self, user_data: Dict):
      ...
      table.add_row("UID", str(user_data.get("id", "-")))
      table.add_row("...", user_data.get("nickname", "-"))
      table.add_row("Email", user_data.get("email", "-"))
      name_data = user_data.get("name", {})
      first_name = name_data.get("first", "")
      last_name = name_data.get("last", "")
      if first_name:
          table.add_row("...", first_name)
      if last_name:
          table.add_row("...", last_name)
      panel = Panel(table, border_style="green", padding=(1, 2))
      self.console.print(panel)
  \<close>
  The rows of the table are recorded as the values given to \<open>add_row\<close>, \<open>None\<close> for the
  dash of a missing key; how the console renders them is not modelled.
\<close>

definition show_user_info :: "json \<Rightarrow> exn + event list" where
  "show_user_info user_data =
     (case user_data of
        JObj d \<Rightarrow>
          (case dict_get_default d (str ''name'') (JObj []) of
             JObj name_data \<Rightarrow>
               (let first_name = dict_get_default name_data (str ''first'') (JStr []);
                    last_name = dict_get_default name_data (str ''last'') (JStr [])
                in Inr [ShowUserInfo
                     ([(UID, map_of d (str ''id'')),
                       (Login, map_of d (str ''nickname'')),
                       (Email, map_of d (str ''email''))]
                      @ (if truthy first_name then [(FirstName, Some first_name)] else [])
                      @ (if truthy last_name then [(LastName, Some last_name)] else []))])
           | _ \<Rightarrow> Inl AttributeError)
      | _ \<Rightarrow> Inl AttributeError)"

text \<open>
  \<open>main_loop\<close> calls \<open>self.ui.ask_continue()\<close>.  The class \<open>UI\<close> of \<open>ui.py\<close> defines
  \<open>clear_screen\<close>, \<open>show_welcome\<close>, \<open>show_config_info\<close>, \<open>show_config_menu\<close>,
  \<open>prompt_token\<close>, \<open>prompt_org_id\<close>, \<open>show_token_info\<close>, \<open>show_scope_validation\<close>,
  \<open>show_config_saved\<close>, \<open>show_main_instructions\<close>, \<open>prompt_url\<close>, \<open>show_processing\<close>,
  \<open>clear_processing\<close>, \<open>show_user_info\<close>, \<open>show_error\<close>, \<open>show_warning\<close>,
  \<open>show_info\<close>, \<open>show_goodbye\<close> and \<open>pause\<close>, and has no attribute \<open>ask_continue\<close>:
  the call raises \<open>AttributeError\<close>.
\<close>

definition ask_continue :: "exn + bool" where
  "ask_continue = Inl AttributeError"

section \<open>main.py\<close>

text \<open>
  \<^verbatim>\<open>
  def process_url(self, url: str):
      try:
          self.ui.show_processing("...")
          normalized_url = normalize_url(url)
          self.ui.clear_processing()
          self.ui.show_processing("...")
          owner_uid, resource_org_id = self.api_client.get_resource_owner(normalized_url)
          self.ui.clear_processing()
          _, config_org_id = self.config.load()
          org_id_to_use = resource_org_id
          self.ui.show_processing("...")
          user_data = self.api_client.get_user_info(org_id_to_use, owner_uid)
          self.ui.clear_processing()
          self.ui.show_user_info(user_data)
      except URLParseError as e:
          self.ui.clear_processing()
          self.ui.show_error(f"...: {e}")
      except YandexAPIError as e:
          self.ui.clear_processing()
          self.ui.show_error(str(e))
      except Exception as e:
          self.ui.clear_processing()
          self.ui.show_error(f"...: {e}")
  \<close>
  \<open>clear_processing\<close> does nothing.  \<open>process_url_try\<close> is the \<open>try\<close> block: the events
  up to its end or up to the exception, and the exception.
\<close>

definition process_url_try ::
  "pylib \<Rightarrow> remote \<Rightarrow> config \<Rightarrow> pystr \<Rightarrow> event list \<times> exn option" where
  "process_url_try L R cfg url =
     (case normalize_url L url of
        Inl e \<Rightarrow> ([ShowProcessing CheckingUrl], Some e)
      | Inr normalized_url \<Rightarrow>
          (case get_resource_owner L R normalized_url of
             Inl e \<Rightarrow>
               ([ShowProcessing CheckingUrl, ShowProcessing FetchingResource,
                 CallGetResourceOwner normalized_url], Some e)
           | Inr (owner_uid, resource_org_id) \<Rightarrow>
               (let config_org_id = snd (load cfg);
                    org_id_to_use = resource_org_id;
                    events =
                      [ShowProcessing CheckingUrl, ShowProcessing FetchingResource,
                       CallGetResourceOwner normalized_url, ShowProcessing FetchingUser,
                       CallGetUserInfo org_id_to_use owner_uid]
                in case get_user_info R org_id_to_use owner_uid of
                     Inl e \<Rightarrow> (events, Some e)
                   | Inr user_data \<Rightarrow>
                       (case show_user_info user_data of
                          Inl e \<Rightarrow> (events, Some e)
                        | Inr shown \<Rightarrow> (events @ shown, None)))))"

definition process_url :: "pylib \<Rightarrow> remote \<Rightarrow> config \<Rightarrow> pystr \<Rightarrow> event list" where
  "process_url L R cfg url =
     (case process_url_try L R cfg url of
        (events, None) \<Rightarrow> events
      | (events, Some (URLParseError m)) \<Rightarrow> events @ [ShowError (InvalidUrl m)]
      | (events, Some (YandexAPIError m)) \<Rightarrow> events @ [ShowError (ApiFailure m)]
      | (events, Some e) \<Rightarrow> events @ [ShowError (Unexpected e)])"

text \<open>
  \<^verbatim>\<open>
  def main_loop(self):
      self.ui.show_main_instructions()
      while True:
          url = self.ui.prompt_url()
          if url is None:
              break
          if not url:
              self.ui.show_error("...")
              continue
          self.process_url(url)
          if not self.ui.ask_continue():
              break
      self.ui.show_goodbye()
  \<close>
  The operator's answers to \<open>prompt_url\<close> are a list: \<open>None\<close> for a quit keyword, the
  stripped line otherwise; when the input has ended, the prompt raises \<open>EOFError\<close>.
  \<open>prompt_loop\<close> is the \<open>while\<close> loop.
\<close>

fun prompt_loop ::
  "pylib \<Rightarrow> remote \<Rightarrow> config \<Rightarrow> pystr option list \<Rightarrow> event list \<times> exn option" where
  "prompt_loop L R cfg [] = ([], Some EOFError)"
| "prompt_loop L R cfg (None # answers) = ([], None)"
| "prompt_loop L R cfg (Some url # answers) =
     (if url = [] then
        (case prompt_loop L R cfg answers of
           (events, r) \<Rightarrow> (ShowError UrlIsEmpty # events, r))
      else
        (case ask_continue of
           Inl e \<Rightarrow> (process_url L R cfg url, Some e)
         | Inr False \<Rightarrow> (process_url L R cfg url, None)
         | Inr True \<Rightarrow>
             (case prompt_loop L R cfg answers of
                (events, r) \<Rightarrow> (process_url L R cfg url @ events, r))))"

definition main_loop ::
  "pylib \<Rightarrow> remote \<Rightarrow> config \<Rightarrow> pystr option list \<Rightarrow> event list \<times> exn option" where
  "main_loop L R cfg answers =
     (case prompt_loop L R cfg answers of
        (events, None) \<Rightarrow> (ShowMainInstructions # events @ [ShowGoodbye], None)
      | (events, Some e) \<Rightarrow> (ShowMainInstructions # events, Some e))"

text \<open>
  \<^verbatim>\<open>
  def run(self):
      try:
          self.ui.show_welcome()
          if not self.setup_config():
              self.ui.show_goodbye()
              return
          self.main_loop()
      except KeyboardInterrupt:
          ...
      except Exception as e:
          self.ui.show_error(f"...: {e}")
          sys.exit(1)
      finally:
          if self.api_client:
              self.api_client.close()
  \<close>
  \<open>setup_config\<close> is a dialogue with the operator; its outcome is an argument here.
  It sets \<open>api_client\<close> when it returns \<open>True\<close>.  The result is the events and the
  exit status of the process, \<open>None\<close> when \<open>run\<close> returns.
\<close>

definition run ::
  "pylib \<Rightarrow> remote \<Rightarrow> config \<Rightarrow> exn + bool \<Rightarrow> pystr option list \<Rightarrow> event list \<times> nat option" where
  "run L R cfg setup_config answers =
     (case setup_config of
        Inl e \<Rightarrow> ([ShowWelcome, ShowError (Unexpected e)], Some 1)
      | Inr False \<Rightarrow> ([ShowWelcome, ShowGoodbye], None)
      | Inr True \<Rightarrow>
          (case main_loop L R cfg answers of
             (events, None) \<Rightarrow> (ShowWelcome # events @ [CloseClient], None)
           | (events, Some e) \<Rightarrow>
               (ShowWelcome # events @ [ShowError (Unexpected e), CloseClient], Some 1)))"

text \<open>
  A library for evaluating the model on ASCII text, where NFKC normalisation changes
  nothing; it accepts every bracketed host, as the library did before the check was
  added, and converts plain decimal numerals.
\<close>

fun decimal :: "pystr \<Rightarrow> nat \<Rightarrow> nat option" where
  "decimal [] acc = Some acc"
| "decimal (c # s) acc = (if is_digit c then decimal s (10 * acc + (c - 48)) else None)"

definition plain_int_of_str :: "pystr \<Rightarrow> int option" where
  "plain_int_of_str s =
     (case s of
        [] \<Rightarrow> None
      | c # r \<Rightarrow>
          if c = 45 then (if r = [] then None else map_option (\<lambda>n. - int n) (decimal r 0))
          else map_option int (decimal s 0))"

definition ascii_lib :: pylib where
  "ascii_lib =
     \<lparr>nfkc = (\<lambda>s. s), bracketed_host_valid = (\<lambda>h. True), int_of_str = plain_int_of_str\<rparr>"

section \<open>Example data\<close>

text \<open>
  A service that knows one shared resource: its access list names an editor and then
  the owner, account 500 of organisation 7, whose profile it serves.
\<close>

definition example_accesses :: "json list" where
  "example_accesses =
     [JObj [(str ''type'', JStr (str ''editor'')), (str ''id'', JNum 11), (str ''org_id'', JNum 3)],
      JObj [(str ''type'', JStr (str ''owner'')), (str ''id'', JNum 500), (str ''org_id'', JNum 7)]]"

definition example_profile :: json where
  "example_profile =
     JObj [(str ''id'', JNum 500), (str ''nickname'', JStr (str ''alice'')),
           (str ''email'', JStr (str ''alice@example.org'')),
           (str ''name'', JObj [(str ''first'', JStr (str ''Alice''))])]"

definition example_remote :: remote where
  "example_remote =
     \<lparr>whoami_get = Inl ConnectionError,
      owner_get = (\<lambda>key. Inr \<lparr>status_code = 200,
                     body = Some (JObj [(str ''accesses'', JArr example_accesses)])\<rparr>),
      user_get = (\<lambda>org_id user_id.
                    if org_id = 7 \<and> user_id = 500
                    then Inr \<lparr>status_code = 200, body = Some example_profile\<rparr>
                    else Inr \<lparr>status_code = 404, body = None\<rparr>)\<rparr>"

text \<open>A service that answers every request with the status 401.\<close>

definition unauthorized :: remote where
  "unauthorized =
     \<lparr>whoami_get = Inr \<lparr>status_code = 401, body = None\<rparr>,
      owner_get = (\<lambda>key. Inr \<lparr>status_code = 401, body = None\<rparr>),
      user_get = (\<lambda>org_id user_id. Inr \<lparr>status_code = 401, body = None\<rparr>)\<rparr>"

text \<open>A configuration file that stores the organisation 42.\<close>

definition example_config :: config where
  "example_config =
     \<lparr>env_file_exists = True, API_TOKEN = Some (str ''y0_AgAAAAAbcdefghij1234''),
      ORG_ID = Some (str ''42'')\<rparr>"

text \<open>The entries of an access list that are objects of type \<open>owner\<close>.\<close>

definition is_owner_entry :: "json \<Rightarrow> bool" where
  "is_owner_entry a =
     (case a of JObj e \<Rightarrow> dict_get e (str ''type'') = JStr (str ''owner'') | _ \<Rightarrow> False)"

section \<open>Results: the mask of a credential, the scopes of a token\<close>

lemma length_str [simp]: "length (str s) = length s"
  by (simp add: str_def)

lemma occurrence_covers_middle:
  assumes occ: "p @ d @ s = ps @ t @ ss"
    and lp: "length p = 9" and ld: "length d = 3" and ls: "length s = 4"
    and lt: "12 \<le> length t"
  shows "sublist d t"
proof -
  have len: "length ps + length t + length ss = 16"
    using arg_cong [OF occ, of length] lp ld ls by simp
  then have k: "length ps \<le> 4" using lt by arith
  have d_eq: "d = take 3 (drop 9 (p @ d @ s))"
    using lp ld by simp
  have "take 3 (drop 9 (ps @ t @ ss)) = take 3 (drop (9 - length ps) t)"
    using k lt len by simp
  with d_eq occ have "d = take 3 (drop (9 - length ps) t)"
    by simp
  then have "t = take (9 - length ps) t @ d @ drop 3 (drop (9 - length ps) t)"
    by (metis append_take_drop_id)
  then show ?thesis
    unfolding sublist_def by blast
qed

lemma get_masked_token_long:
  assumes "12 \<le> length token"
  shows "get_masked_token token = take 9 token @ str ''...'' @ drop (length token - 4) token"
  using assms by (auto simp: get_masked_token_def Let_def)

text \<open>
  C9, as stated, fails: a credential of sixteen characters whose tenth to twelfth
  characters are dots is its own mask.
\<close>

theorem get_masked_token_counterexample:
  "12 \<le> length (str ''abcdefghi...wxyz'')
   \<and> sublist (str ''abcdefghi...wxyz'') (get_masked_token (str ''abcdefghi...wxyz''))"
  by (simp add: get_masked_token_def str_def)

text \<open>
  C9, amended.  For a credential of at least twelve characters the mask is its first
  nine characters, three dots and its last four characters; the mask does not contain
  the credential when the credential has more than sixteen characters or does not
  itself contain three dots in a row.  A credential of fewer than twelve characters
  gives the marker \<open>***\<close>.
\<close>

theorem get_masked_token_mask:
  "(12 \<le> length token \<longrightarrow>
      get_masked_token token = take 9 token @ str ''...'' @ drop (length token - 4) token)
   \<and> (12 \<le> length token \<and> (16 < length token \<or> \<not> sublist (str ''...'') token) \<longrightarrow>
      \<not> sublist token (get_masked_token token))
   \<and> (length token < 12 \<longrightarrow> get_masked_token token = str ''***'')"
proof (intro conjI impI)
  assume "12 \<le> length token"
  then show "get_masked_token token = take 9 token @ str ''...'' @ drop (length token - 4) token"
    by (rule get_masked_token_long)
next
  assume h: "12 \<le> length token \<and> (16 < length token \<or> \<not> sublist (str ''...'') token)"
  then have m: "get_masked_token token = take 9 token @ str ''...'' @ drop (length token - 4) token"
    by (simp add: get_masked_token_long)
  show "\<not> sublist token (get_masked_token token)"
  proof
    assume s: "sublist token (get_masked_token token)"
    have "length (get_masked_token token) = 16"
      using h by (simp add: m)
    with s have "length token \<le> 16"
      by (auto simp: sublist_def)
    moreover from s obtain ps ss where
      "take 9 token @ str ''...'' @ drop (length token - 4) token = ps @ token @ ss"
      unfolding m sublist_def by blast
    then have "sublist (str ''...'') token"
      using h by (intro occurrence_covers_middle [of "take 9 token" _ "drop (length token - 4) token" ps token ss]) auto
    ultimately show False using h by simp
  qed
next
  assume "length token < 12"
  then show "get_masked_token token = str ''***''"
    by (simp add: get_masked_token_def)
qed

theorem get_masked_token_mask_witness:
  "12 \<le> length (str ''y0_AgAAAAAbcdefghij1234'')
   \<and> \<not> sublist (str ''...'') (str ''y0_AgAAAAAbcdefghij1234'')
   \<and> get_masked_token (str ''y0_AgAAAAAbcdefghij1234'') = str ''y0_AgAAAA...1234''
   \<and> \<not> sublist (str ''y0_AgAAAAAbcdefghij1234'') (get_masked_token (str ''y0_AgAAAAAbcdefghij1234''))
   \<and> length (str ''secret'') < 12
   \<and> get_masked_token (str ''secret'') = str ''***''"
proof -
  let ?T = "str ''y0_AgAAAAAbcdefghij1234''"
  have a: "12 \<le> length ?T" by simp
  have b: "\<not> sublist (str ''...'') ?T"
    by (simp add: str_def sublist_Cons_right)
  have c: "length (str ''secret'') < 12" by simp
  have d: "take 9 ?T @ str ''...'' @ drop (length ?T - 4) ?T = str ''y0_AgAAAA...1234''"
    by (simp add: str_def)
  from get_masked_token_mask [of ?T] a b
  have e: "get_masked_token ?T = take 9 ?T @ str ''...'' @ drop (length ?T - 4) ?T"
    and f: "\<not> sublist ?T (get_masked_token ?T)"
    by blast+
  from get_masked_token_mask [of "str ''secret''"] c
  have g: "get_masked_token (str ''secret'') = str ''***''"
    by blast
  from e d have e': "get_masked_token ?T = str ''y0_AgAAAA...1234''"
    by (rule trans)
  from a b e' f c g show ?thesis
    by (intro conjI)
qed

lemma has_any_iff: "has_any req S \<longleftrightarrow> (\<exists>r \<in> set req. r \<in> S)"
  by (induction req) auto

text \<open>
  C8.  \<open>validate_scopes\<close> returns \<open>(is_valid, missing)\<close>: the disk group is satisfied
  by the read or the write disk scope, the directory group by the read or the write
  directory scope, an unsatisfied group puts its read scope into \<open>missing\<close>, disk before
  directory, and \<open>is_valid\<close> holds exactly when \<open>missing\<close> is empty.
\<close>

theorem validate_scopes_groups:
  "validate_scopes scopes =
     (let disk_ok = (str ''cloud_api:disk.read'' \<in> set scopes \<or> str ''cloud_api:disk.write'' \<in> set scopes);
          users_ok = (str ''directory:read_users'' \<in> set scopes \<or> str ''directory:write_users'' \<in> set scopes);
          missing = (if disk_ok then [] else [str ''cloud_api:disk.read''])
                    @ (if users_ok then [] else [str ''directory:read_users''])
      in (missing = [], missing))"
  by (simp add: validate_scopes_def Let_def has_any_iff REQUIRED_SCOPES_disk_def REQUIRED_SCOPES_users_def)

section \<open>Results: the owner of a resource\<close>

lemma find_owner_objects:
  assumes "\<forall>a \<in> set accesses. \<exists>e. a = JObj e"
  shows "find_owner L accesses =
     (case List.find is_owner_entry accesses of
        None \<Rightarrow> Inl (YandexAPIError OwnerNotFound)
      | Some a \<Rightarrow>
          (case a of
             JObj e \<Rightarrow>
               if dict_get e (str ''id'') = JNull \<or> dict_get e (str ''org_id'') = JNull
               then Inl (YandexAPIError OwnerIncomplete)
               else (case py_int L (dict_get e (str ''id'')) of
                       Inl x \<Rightarrow> Inl x
                     | Inr u \<Rightarrow>
                         (case py_int L (dict_get e (str ''org_id'')) of
                            Inl x \<Rightarrow> Inl x
                          | Inr g \<Rightarrow> Inr (u, g)))
           | _ \<Rightarrow> Inl AttributeError))"
  using assms
proof (induction accesses)
  case Nil
  then show ?case by simp
next
  case (Cons a accesses)
  then obtain e where a: "a = JObj e" by auto
  show ?case
  proof (cases "dict_get e (str ''type'') = JStr (str ''owner'')")
    case True
    then show ?thesis by (simp add: a is_owner_entry_def Let_def)
  next
    case False
    then show ?thesis using Cons by (simp add: a is_owner_entry_def)
  qed
qed

lemma py_int_not_api: "py_int L v \<noteq> Inl (YandexAPIError m)"
  by (auto simp: py_int_def split: json.splits option.splits)

lemma get_resource_owner_ok_response:
  assumes "quote public_url = Inr key" and "owner_get R key = Inr r"
    and "\<not> (400 \<le> status_code r \<and> status_code r < 600)"
    and "body r = Some (JObj d)"
    and "map_of d (str ''accesses'') = Some (JArr accesses)"
  shows "get_resource_owner L R public_url = find_owner L accesses"
proof -
  have "fetch_json (owner_get R key) = Inr (JObj d)"
    using assms(2-4) by (auto simp: fetch_json_def raise_for_status_def response_json_def)
  then show ?thesis
    using assms(1,5) by (simp add: get_resource_owner_def dict_get_default_def py_iter_def)
qed

text \<open>
  C4.  Take a response of the owner lookup with a status outside 400..599 whose body
  is an object with an \<open>accesses\<close> list of objects.  When the first entry of type
  \<open>owner\<close> has the account id \<open>u\<close> and the organisation id \<open>g\<close>, \<open>get_resource_owner\<close>
  returns \<open>(u, g)\<close>.  It raises \<open>YandexAPIError\<close> exactly when the list has no entry of
  type \<open>owner\<close> or the first such entry lacks one of the two identifiers.
\<close>

theorem get_resource_owner_first_owner:
  assumes "quote public_url = Inr key" and "owner_get R key = Inr r"
    and "\<not> (400 \<le> status_code r \<and> status_code r < 600)"
    and "body r = Some (JObj d)"
    and "map_of d (str ''accesses'') = Some (JArr accesses)"
    and "\<forall>a \<in> set accesses. \<exists>e. a = JObj e"
  shows "(\<forall>e u g. List.find is_owner_entry accesses = Some (JObj e)
              \<and> dict_get e (str ''id'') = JNum u \<and> dict_get e (str ''org_id'') = JNum g
            \<longrightarrow> get_resource_owner L R public_url = Inr (u, g))
       \<and> ((\<exists>m. get_resource_owner L R public_url = Inl (YandexAPIError m))
            \<longleftrightarrow> (List.find is_owner_entry accesses = None
                 \<or> (\<exists>e. List.find is_owner_entry accesses = Some (JObj e)
                        \<and> (dict_get e (str ''id'') = JNull \<or> dict_get e (str ''org_id'') = JNull))))"
proof -
  have eq: "get_resource_owner L R public_url = find_owner L accesses"
    using assms(1-5) by (rule get_resource_owner_ok_response)
  note fo = find_owner_objects [OF assms(6), of L]
  show ?thesis
  proof (cases "List.find is_owner_entry accesses")
    case None
    then show ?thesis by (simp add: eq fo)
  next
    case (Some a)
    then have "a \<in> set accesses"
      by (auto simp: find_Some_iff)
    with assms(6) obtain e where a: "a = JObj e" by auto
    show ?thesis
    proof (cases "dict_get e (str ''id'') = JNull \<or> dict_get e (str ''org_id'') = JNull")
      case True
      then show ?thesis using Some a by (auto simp: eq fo)
    next
      case False
      then show ?thesis using Some a py_int_not_api [of L]
        by (auto simp: eq fo py_int_def split: sum.splits)
    qed
  qed
qed


section \<open>Results: HTTP errors\<close>

text \<open>Every failure of \<open>whoami\<close> has the same message, whatever the status code.\<close>

lemma whoami_failure_generic:
  "whoami R = Inl e \<Longrightarrow> \<exists>x. e = YandexAPIError (WhoamiFailed x)"
  by (auto simp: whoami_def split: sum.splits)

text \<open>
  C5 at the status 401.  The owner lookup and the profile lookup answer with the message
  for a bad credential; the identity check answers with its one message for every
  failure, which carries the error of the HTTP library.
\<close>

theorem whoami_unauthorized_generic:
  "whoami unauthorized = Inl (YandexAPIError (WhoamiFailed (HTTPError 401)))
   \<and> get_resource_owner ascii_lib unauthorized (str ''abc'') = Inl (YandexAPIError InvalidToken)
   \<and> get_user_info unauthorized 7 500 = Inl (YandexAPIError InvalidToken)"
  by code_simp

section \<open>Results: the main loop\<close>

text \<open>
  After a line that is not empty has been processed, the loop asks whether to go on;
  the call raises, so the loop ends there and no later line is read.
\<close>

lemma prompt_loop_stops:
  "url \<noteq> [] \<Longrightarrow>
   prompt_loop L R cfg (Some url # answers) = (process_url L R cfg url, Some AttributeError)"
  by (simp add: ask_continue_def)

text \<open>
  C6 on a session of two lines, the first of which is not a link.  \<open>process_url\<close>
  reports the parse error and returns; then \<open>main_loop\<close> raises \<open>AttributeError\<close>,
  \<open>run\<close> reports it and the process exits with the status 1.  The second line is
  never read.
\<close>

theorem run_ends_after_failed_request:
  "run ascii_lib example_remote example_config (Inr True)
     [Some (str ''not a link!''), Some (str ''https://disk.yandex.ru/d/abc-123'')]
   = ([ShowWelcome, ShowMainInstructions, ShowProcessing CheckingUrl,
       ShowError (InvalidUrl UnsupportedFormat), ShowError (Unexpected AttributeError),
       CloseClient], Some 1)"
  by code_simp


text \<open>The access list of the example: the owner is its second entry.\<close>

theorem get_resource_owner_first_owner_witness:
  "List.find is_owner_entry example_accesses
     = Some (JObj [(str ''type'', JStr (str ''owner'')), (str ''id'', JNum 500), (str ''org_id'', JNum 7)])
   \<and> get_resource_owner ascii_lib example_remote (str ''abc'') = Inr (500, 7)
   \<and> \<not> (\<exists>m. get_resource_owner ascii_lib example_remote (str ''abc'') = Inl (YandexAPIError m))"
proof -
  let ?e = "[(str ''type'', JStr (str ''owner'')), (str ''id'', JNum 500), (str ''org_id'', JNum 7)]"
  let ?d = "[(str ''accesses'', JArr example_accesses)]"
  let ?r = "\<lparr>status_code = 200, body = Some (JObj ?d)\<rparr>"
  have q: "quote (str ''abc'') = Inr (str ''abc'')"
    by code_simp
  have g: "owner_get example_remote (str ''abc'') = Inr ?r"
    by (simp add: example_remote_def)
  have st: "\<not> (400 \<le> status_code ?r \<and> status_code ?r < 600)"
    by simp
  have b: "body ?r = Some (JObj ?d)"
    by simp
  have a: "map_of ?d (str ''accesses'') = Some (JArr example_accesses)"
    by simp
  have objs: "\<forall>a \<in> set example_accesses. \<exists>e. a = JObj e"
    by (simp add: example_accesses_def)
  have f: "List.find is_owner_entry example_accesses = Some (JObj ?e)"
    by code_simp
  have i: "dict_get ?e (str ''id'') = JNum 500" and o: "dict_get ?e (str ''org_id'') = JNum 7"
    by code_simp+
  note th = get_resource_owner_first_owner [OF q g st b a objs, of ascii_lib]
  from th f i o have r: "get_resource_owner ascii_lib example_remote (str ''abc'') = Inr (500, 7)"
    by blast
  from th f i o have n: "\<not> (\<exists>m. get_resource_owner ascii_lib example_remote (str ''abc'') = Inl (YandexAPIError m))"
    by (simp add: r)
  from f r n show ?thesis by (intro conjI)
qed

section \<open>Results: the organisation id of the profile call\<close>

lemma show_user_info_no_call: "show_user_info j = Inr evs \<Longrightarrow> CallGetUserInfo a b \<notin> set evs"
  by (auto simp: show_user_info_def Let_def split: json.splits)

lemma process_url_try_config: "process_url_try L R cfg' url = process_url_try L R cfg url"
  by (simp add: process_url_try_def Let_def split: sum.splits prod.splits)

lemma process_url_config: "process_url L R cfg' url = process_url L R cfg url"
  by (simp add: process_url_def process_url_try_config [of L R cfg' url cfg])

lemma process_url_calls:
  assumes "normalize_url L url = Inr n" and "get_resource_owner L R n = Inr (uid, g)"
  shows "CallGetUserInfo a b \<in> set (process_url L R cfg url) \<longleftrightarrow> a = g \<and> b = uid"
proof (cases "get_user_info R g uid")
  case (Inl e)
  then show ?thesis using assms
    by (cases e) (auto simp: process_url_def process_url_try_def Let_def)
next
  case (Inr user_data)
  show ?thesis
  proof (cases "show_user_info user_data")
    case (Inl e)
    then show ?thesis using assms Inr
      by (cases e) (auto simp: process_url_def process_url_try_def Let_def)
  next
    case (Inr evs)
    then show ?thesis using assms \<open>get_user_info R g uid = Inr user_data\<close>
        show_user_info_no_call [OF Inr, of a b]
      by (auto simp: process_url_def process_url_try_def Let_def)
  qed
qed

text \<open>
  C7.  What \<open>process_url\<close> does is the same for two configurations that differ in the
  stored organisation id only.  When the link is normalised and the owner lookup
  returns the account \<open>uid\<close> of the organisation \<open>g\<close>, the calls of \<open>get_user_info\<close> in
  the request are exactly the call with \<open>g\<close> and \<open>uid\<close>.
\<close>

theorem process_url_uses_owner_org_id:
  "process_url L R (cfg\<lparr>ORG_ID := org\<rparr>) url = process_url L R cfg url
   \<and> (\<forall>n uid g. normalize_url L url = Inr n \<and> get_resource_owner L R n = Inr (uid, g)
         \<longrightarrow> (\<forall>a b. CallGetUserInfo a b \<in> set (process_url L R cfg url) \<longleftrightarrow> a = g \<and> b = uid))"
  using process_url_config [of L R "cfg\<lparr>ORG_ID := org\<rparr>" url cfg] process_url_calls [of L url _ R _ _ _ _ cfg]
  by blast

text \<open>
  The scenario of the specification: the short link, the owner 500 of organisation 7,
  a configuration that stores organisation 42.
\<close>

theorem process_url_uses_owner_org_id_witness:
  "normalize_url ascii_lib (str ''https://disk.yandex.ru/d/abc-123'')
     = Inr (str ''https://disk.yandex.ru/d/abc-123'')
   \<and> get_resource_owner ascii_lib example_remote (str ''https://disk.yandex.ru/d/abc-123'') = Inr (500, 7)
   \<and> CallGetUserInfo 7 500
        \<in> set (process_url ascii_lib example_remote example_config (str ''https://disk.yandex.ru/d/abc-123''))
   \<and> CallGetUserInfo 42 500
        \<notin> set (process_url ascii_lib example_remote example_config (str ''https://disk.yandex.ru/d/abc-123''))
   \<and> process_url ascii_lib example_remote (example_config\<lparr>ORG_ID := Some (str ''7'')\<rparr>)
        (str ''https://disk.yandex.ru/d/abc-123'')
      = process_url ascii_lib example_remote example_config (str ''https://disk.yandex.ru/d/abc-123'')"
proof -
  let ?u = "str ''https://disk.yandex.ru/d/abc-123''"
  have n: "normalize_url ascii_lib ?u = Inr ?u"
    by code_simp
  have o: "get_resource_owner ascii_lib example_remote ?u = Inr (500, 7)"
    by code_simp
  note th = process_url_uses_owner_org_id
              [where L = ascii_lib and R = example_remote and cfg = example_config
                 and org = "Some (str ''7'')" and url = ?u]
  from th n o have c: "\<And>a b. CallGetUserInfo a b \<in> set (process_url ascii_lib example_remote example_config ?u)
                         \<longleftrightarrow> a = 7 \<and> b = 500"
    by blast
  have c1: "CallGetUserInfo 7 500 \<in> set (process_url ascii_lib example_remote example_config ?u)"
    by (simp add: c)
  have c2: "CallGetUserInfo 42 500 \<notin> set (process_url ascii_lib example_remote example_config ?u)"
    by (simp add: c)
  from th have e: "process_url ascii_lib example_remote (example_config\<lparr>ORG_ID := Some (str ''7'')\<rparr>) ?u
                   = process_url ascii_lib example_remote example_config ?u"
    by blast
  from n o c1 c2 e show ?thesis by (intro conjI)
qed

section \<open>Results: the library functions\<close>







text \<open>
  \<open>urlparse\<close> on a link to the storage host: after \<open>http://disk.yandex.ru\<close> or
  \<open>https://disk.yandex.ru\<close> and a delimiter, the network location is the host, and
  path, query and fragment are those of the rest.
\<close>

lemma remove_unsafe_append:
  assumes "pre \<noteq> []" and "\<forall>c \<in> set pre. 32 < c"
  shows "remove_unsafe (pre @ rest) = pre @ filter (\<lambda>c. c \<noteq> 9 \<and> c \<noteq> 13 \<and> c \<noteq> 10) rest"
proof -
  from assms obtain c cs where p: "pre = c # cs" and c: "32 < c"
    by (cases pre) auto
  have "filter (\<lambda>c. c \<noteq> 9 \<and> c \<noteq> 13 \<and> c \<noteq> 10) pre = pre"
    using assms(2) by (intro filter_True) auto
  then show ?thesis
    using p c by (simp add: remove_unsafe_def)
qed

lemma remove_unsafe_delim:
  "rest = [] \<or> is_netloc_delim (hd rest) \<Longrightarrow>
   filter (\<lambda>c. c \<noteq> 9 \<and> c \<noteq> 13 \<and> c \<noteq> 10) rest = remove_unsafe rest"
  by (cases rest) (auto simp: remove_unsafe_def is_netloc_delim_def)

lemma remove_unsafe_delim_hd:
  "rest = [] \<or> is_netloc_delim (hd rest) \<Longrightarrow>
   remove_unsafe rest = [] \<or> is_netloc_delim (hd (remove_unsafe rest))"
  by (cases rest) (auto simp: remove_unsafe_def is_netloc_delim_def)

lemma split_scheme_http: "split_scheme (str ''http://'' @ r) = (str ''http'', str ''//'' @ r)"
  by (simp add: split_scheme_def str_def before_def is_lower_def is_scheme_char_def is_alnum_def
      lower_ascii_def is_upper_def)

lemma split_scheme_https: "split_scheme (str ''https://'' @ r) = (str ''https'', str ''//'' @ r)"
  by (simp add: split_scheme_def str_def before_def is_lower_def is_scheme_char_def is_alnum_def
      lower_ascii_def is_upper_def)

lemma splitnetloc_disk:
  "r = [] \<or> is_netloc_delim (hd r) \<Longrightarrow>
   splitnetloc (str ''//disk.yandex.ru'' @ r) = (str ''disk.yandex.ru'', r)"
  by (cases r) (auto simp: splitnetloc_def str_def is_netloc_delim_def)

lemma check_brackets_disk: "check_brackets L (str ''disk.yandex.ru'') = Inr ()"
  by (simp add: check_brackets_def str_def)

lemma checknetloc_disk: "checknetloc L (str ''disk.yandex.ru'') = Inr ()"
  by (simp add: checknetloc_def str_def is_ascii_def)

lemma str_append: "str (a @ b) = str a @ str b"
  by (simp add: str_def)

lemma urlsplit_disk:
  assumes s: "sch = ''http'' \<or> sch = ''https''" and r: "rest = [] \<or> is_netloc_delim (hd rest)"
  shows "urlsplit L (str sch @ str ''://disk.yandex.ru'' @ rest) =
           (case split_fragment_query (remove_unsafe rest) of
              (p, q, f) \<Rightarrow> Inr \<lparr>scheme = str sch, netloc = str ''disk.yandex.ru'', path = p,
                                 params = [], query = q, fragment = f\<rparr>)"
proof -
  let ?r = "remove_unsafe rest"
  have pre: "remove_unsafe ((str sch @ str ''://disk.yandex.ru'') @ rest)
               = (str sch @ str ''://disk.yandex.ru'') @ ?r"
    using s by (subst remove_unsafe_append) (auto simp: str_def remove_unsafe_delim [OF r])
  have sp: "split_scheme ((str sch @ str ''://disk.yandex.ru'') @ ?r)
              = (str sch, str ''//disk.yandex.ru'' @ ?r)"
    using s split_scheme_http [of "str ''disk.yandex.ru'' @ ?r"]
      split_scheme_https [of "str ''disk.yandex.ru'' @ ?r"]
    by (auto simp: str_def)
  have t2: "take 2 (str ''//disk.yandex.ru'' @ ?r) = [47, 47]"
    by (simp add: str_def)
  note nl = splitnetloc_disk [OF remove_unsafe_delim_hd [OF r]]
  from pre have e1: "remove_unsafe (str sch @ str ''://disk.yandex.ru'' @ rest)
                      = str sch @ str ''://disk.yandex.ru'' @ ?r"
    by simp
  from sp have e2: "split_scheme (str sch @ str ''://disk.yandex.ru'' @ ?r)
                      = (str sch, str ''//disk.yandex.ru'' @ ?r)"
    by simp
  show ?thesis
    unfolding urlsplit_def e1 e2
    by (simp only: prod.case t2 if_True nl fst_conv check_brackets_disk sum.case)
       (simp add: checknetloc_disk split: prod.split)
qed


lemma urlparse_disk:
  assumes s: "sch = ''http'' \<or> sch = ''https''" and r: "rest = [] \<or> is_netloc_delim (hd rest)"
  shows "urlparse L (str sch @ str ''://disk.yandex.ru'' @ rest) =
           (case split_fragment_query (remove_unsafe rest) of
              (p, q, f) \<Rightarrow>
                Inr \<lparr>scheme = str sch, netloc = str ''disk.yandex.ru'',
                     path = (if 59 \<in> set p then fst (splitparams p) else p),
                     params = (if 59 \<in> set p then snd (splitparams p) else []),
                     query = q, fragment = f\<rparr>)"
proof -
  have "str sch \<in> set uses_params"
    using s by (auto simp: uses_params_def)
  then show ?thesis
    unfolding urlparse_def urlsplit_disk [OF s r]
    by (simp split: prod.split)
qed


text \<open>\<open>parse_qs\<close> gives, for a name, the values of its fields in the order of the
  query, and no entry for a name without a field.\<close>

lemma collect_lookup:
  "collect pairs m k =
     (let vs = map snd (filter (\<lambda>nv. fst nv = k) pairs)
      in if vs = [] then m k else Some ((case m k of None \<Rightarrow> [] | Some xs \<Rightarrow> xs) @ vs))"
proof (induction pairs arbitrary: m)
  case Nil
  then show ?case by simp
next
  case (Cons nv pairs)
  obtain n v where nv: "nv = (n, v)" by (cases nv)
  show ?case
    by (cases "m n") (auto simp: nv Cons Let_def)
qed

lemma parse_qs_values:
  "parse_qs qs k =
     (let vs = map snd (filter (\<lambda>nv. fst nv = k) (parse_qsl qs))
      in if vs = [] then None else Some vs)"
  by (simp add: parse_qs_def collect_lookup Let_def)

lemma parse_qs_nonempty: "parse_qs qs k \<noteq> Some []"
  by (simp add: parse_qs_values Let_def)






text \<open>What the pattern of the short link matches, and how \<open>urlparse\<close> reads it.\<close>

lemma match_literal_Some: "match_literal lit s = Some r \<longleftrightarrow> s = lit @ r"
proof
  assume "match_literal lit s = Some r"
  then have "take (length lit) s = lit" and "r = drop (length lit) s"
    by (auto simp: match_literal_def startswith_def split: if_splits)
  then show "s = lit @ r"
    by (metis append_take_drop_id)
next
  assume "s = lit @ r"
  then show "match_literal lit s = Some r"
    by (simp add: match_literal_def startswith_def)
qed

lemma match_disk_d_Some:
  assumes "match_disk_d u = Some r"
  shows "u = str ''http'' @ str ''://disk.yandex.ru'' @ str ''/d/'' @ r
       \<or> u = str ''https'' @ str ''://disk.yandex.ru'' @ str ''/d/'' @ r"
proof -
  from assms obtain r1 where 1: "u = str ''http'' @ r1"
    and 2: "(case r1 of [] \<Rightarrow> r1 | c # r' \<Rightarrow> if c = 115 then r' else r1)
              = str ''://disk.yandex.ru/d/'' @ r"
    by (auto simp: match_disk_d_def match_literal_Some split: option.splits)
  show ?thesis
  proof (cases r1)
    case Nil
    with 2 show ?thesis by (simp add: str_def)
  next
    case (Cons c r')
    show ?thesis
    proof (cases "c = 115")
      case True
      with 1 2 Cons show ?thesis by (simp add: str_def)
    next
      case False
      with 1 2 Cons show ?thesis by (simp add: str_def)
    qed
  qed
qed

lemma match_short_disk_d: "match_short_pattern u \<Longrightarrow> match_disk_d u \<noteq> None"
  by (auto simp: match_short_pattern_def split: option.splits)

lemma match_disk_d_http: "match_disk_d u \<noteq> None \<Longrightarrow> startswith u (str ''http'')"
  by (auto simp: match_disk_d_def match_literal_def split: option.splits if_splits)


lemma contains_startswith: "startswith s sub \<Longrightarrow> contains sub s"
  by (cases s) (auto simp: startswith_def)

lemma contains_domain: "contains (str ''disk.yandex.ru'') (str ''disk.yandex.ru'')"
  by (rule contains_startswith) (simp add: startswith_def)

lemma takeWhile_append_le:
  "\<not> P y \<Longrightarrow> length (takeWhile P (xs @ y # ys)) \<le> length xs"
  by (induction xs) auto

lemma split_fragment_query_d:
  "\<exists>x. fst (split_fragment_query (str ''/d/'' @ r)) = str ''/d/'' @ x"
  by (simp add: split_fragment_query_def Let_def before_def str_def)

lemma splitparams_d: "\<exists>y. fst (splitparams (str ''/d/'' @ x)) = str ''/d/'' @ y"
proof (cases "59 \<in> set (rev (takeWhile (\<lambda>c. c \<noteq> 47) (rev (str ''/d/'' @ x))))")
  case False
  then show ?thesis by (simp add: splitparams_def Let_def)
next
  case True
  let ?l = "length (takeWhile (\<lambda>c. c \<noteq> 47) (rev (str ''/d/'' @ x)))"
  have "rev (str ''/d/'' @ x) = rev x @ 47 # [100, 47]"
    by (simp add: str_def)
  then have "?l \<le> length (rev x)"
    using takeWhile_append_le [of "\<lambda>c. c \<noteq> 47" 47 "rev x" "[100, 47]"] by simp
  then have l: "?l \<le> length x" by simp
  have n: "length (str ''/d/'' @ x) - ?l = length (str ''/d/'') + (length x - ?l)"
    using l by simp
  have "take (length (str ''/d/'' @ x) - ?l) (str ''/d/'' @ x)
          = str ''/d/'' @ take (length x - ?l) x"
    unfolding n by simp
  with True show ?thesis
    by (simp add: splitparams_def Let_def)
qed

lemma disk_d_parsed:
  assumes "match_disk_d u = Some r"
  shows "\<exists>p. urlparse L u = Inr p \<and> netloc p = str ''disk.yandex.ru''
             \<and> contains (str ''/d/'') (path p)"
proof -
  from match_disk_d_Some [OF assms] obtain sch where
    s: "sch = ''http'' \<or> sch = ''https''" and
    u: "u = str sch @ str ''://disk.yandex.ru'' @ str ''/d/'' @ r"
    by auto
  have d: "str ''/d/'' @ r = [] \<or> is_netloc_delim (hd (str ''/d/'' @ r))"
    by (simp add: str_def is_netloc_delim_def)
  have ru: "remove_unsafe (str ''/d/'' @ r)
              = str ''/d/'' @ filter (\<lambda>c. c \<noteq> 9 \<and> c \<noteq> 13 \<and> c \<noteq> 10) r"
    by (rule remove_unsafe_append) (simp_all add: str_def)
  obtain p q f where sf: "split_fragment_query (remove_unsafe (str ''/d/'' @ r)) = (p, q, f)"
    by (cases "split_fragment_query (remove_unsafe (str ''/d/'' @ r))")
  from split_fragment_query_d [of "filter (\<lambda>c. c \<noteq> 9 \<and> c \<noteq> 13 \<and> c \<noteq> 10) r"] sf ru
  obtain x where p: "p = str ''/d/'' @ x"
    by auto
  from splitparams_d [of x] obtain y where y: "fst (splitparams p) = str ''/d/'' @ y"
    using p by auto
  have "startswith (if 59 \<in> set p then fst (splitparams p) else p) (str ''/d/'')"
    using p y by (simp add: startswith_def)
  then have "contains (str ''/d/'') (if 59 \<in> set p then fst (splitparams p) else p)"
    by (rule contains_startswith)
  then show ?thesis
    unfolding u urlparse_disk [OF s d] sf by simp
qed

lemma str_distinct:
  "str ''short'' \<noteq> str ''full''" "str ''short'' \<noteq> str ''hash''" "str ''short'' \<noteq> str ''unknown''"
  "str ''full'' \<noteq> str ''hash''" "str ''full'' \<noteq> str ''unknown''" "str ''hash'' \<noteq> str ''unknown''"
  by (simp_all add: str_def)

lemma strip_empty_not_hash: "\<not> match_hash_pattern []"
  by (simp add: match_hash_pattern_def)

lemma empty_not_http: "\<not> startswith [] (str ''http'')"
  by (simp add: startswith_def str_def)


section \<open>Results: url\_parser.py\<close>




text \<open>A string that \<open>get_url_type\<close> calls short is accepted by \<open>normalize_url\<close>: by the
  short-link pattern, or by its \<open>hash\<close> parameter, or by the \<open>/d/\<close> of its path.\<close>

lemma normalize_url_disk_d:
  assumes "match_disk_d (strip url) \<noteq> None"
  shows "\<exists>r. normalize_url L url = Inr r"
proof -
  from assms obtain r where m: "match_disk_d (strip url) = Some r" by auto
  from disk_d_parsed [OF m, of L] obtain p where
    p: "urlparse L (strip url) = Inr p" "netloc p = str ''disk.yandex.ru''"
       "contains (str ''/d/'') (path p)"
    by auto
  have h: "startswith (strip url) (str ''http'')"
    using assms by (rule match_disk_d_http)
  then have ne: "strip url \<noteq> []"
    using empty_not_http by auto
  show ?thesis
  proof (cases "parse_qs (query p) (str ''hash'')")
    case None
    then show ?thesis
      using ne h p by (simp add: normalize_url_def Let_def contains_domain)
  next
    case (Some vs)
    then have "vs \<noteq> []" using parse_qs_nonempty by auto
    then obtain v vs' where "vs = v # vs'" by (cases vs) auto
    then show ?thesis
      using ne h p Some by (simp add: normalize_url_def Let_def contains_domain)
  qed
qed

text \<open>
  C10, amended.  When \<open>get_url_type\<close> returns, its result is one of \<open>short\<close>, \<open>full\<close>,
  \<open>hash\<close> and \<open>unknown\<close>, and \<open>normalize_url\<close> succeeds on the same input exactly
  when the result is \<open>short\<close> or \<open>full\<close>, or it is \<open>hash\<close> and the stripped input does
  not start with \<open>http\<close>, or it is \<open>hash\<close> or \<open>unknown\<close> and the stripped input starts
  with \<open>http\<close>, has a network location that contains the storage domain and a path
  that contains \<open>/d/\<close>.
\<close>

theorem get_url_type_and_normalize_url:
  assumes "get_url_type L url = Inr t"
  shows "(t = str ''short'' \<or> t = str ''full'' \<or> t = str ''hash'' \<or> t = str ''unknown'')
       \<and> ((\<exists>r. normalize_url L url = Inr r) \<longleftrightarrow>
             t = str ''short'' \<or> t = str ''full''
             \<or> (t = str ''hash'' \<and> \<not> startswith (strip url) (str ''http''))
             \<or> ((t = str ''hash'' \<or> t = str ''unknown'') \<and> startswith (strip url) (str ''http'')
                 \<and> (\<exists>p. urlparse L (strip url) = Inr p
                        \<and> contains (str ''disk.yandex.ru'') (netloc p)
                        \<and> contains (str ''/d/'') (path p))))"
proof (cases "match_disk_d (strip url) \<noteq> None")
  case True
  then have "t = str ''short''"
    using assms by (simp add: get_url_type_def Let_def)
  then show ?thesis
    using normalize_url_disk_d [OF True, of L] by simp
next
  case nd: False
  then have ns: "\<not> match_short_pattern (strip url)"
    using match_short_disk_d by blast
  show ?thesis
  proof (cases "startswith (strip url) (str ''http'')")
    case False
    then have t: "t = (if match_hash_pattern (strip url) then str ''hash'' else str ''unknown'')"
      using assms nd by (auto simp: get_url_type_def Let_def)
    show ?thesis
    proof (cases "strip url = []")
      case True
      then show ?thesis
        using t False by (simp add: normalize_url_def Let_def strip_empty_not_hash str_distinct str_distinct [symmetric])
    next
      case ne: False
      then show ?thesis
        using t False ns by (simp add: normalize_url_def Let_def str_distinct str_distinct [symmetric])
    qed
  next
    case True
    then have ne: "strip url \<noteq> []"
      using empty_not_http by auto
    from assms nd True obtain p where p: "urlparse L (strip url) = Inr p"
      by (cases "urlparse L (strip url)") (auto simp: get_url_type_def Let_def)
    show ?thesis
    proof (cases "contains (str ''disk.yandex.ru'') (netloc p)
                  \<and> parse_qs (query p) (str ''hash'') \<noteq> None")
      case full: True
      then have t: "t = str ''full''"
        using assms nd True p by (simp add: get_url_type_def Let_def)
      from full obtain vs where vs: "parse_qs (query p) (str ''hash'') = Some vs" by auto
      then have "vs \<noteq> []" using parse_qs_nonempty by auto
      then obtain v vs' where "vs = v # vs'" by (cases vs) auto
      then show ?thesis
        using t ne ns True p full vs by (simp add: normalize_url_def Let_def)
    next
      case nf: False
      then have t: "t = (if match_hash_pattern (strip url) then str ''hash'' else str ''unknown'')"
        using assms nd True p by (auto simp: get_url_type_def Let_def)
      show ?thesis
      proof (cases "contains (str ''disk.yandex.ru'') (netloc p)")
        case False
        then show ?thesis
          using t ne ns True p by (simp add: normalize_url_def Let_def str_distinct str_distinct [symmetric])
      next
        case dom: True
        with nf have "parse_qs (query p) (str ''hash'') = None" by simp
        then show ?thesis
          using t ne ns True p dom by (simp add: normalize_url_def Let_def str_distinct str_distinct [symmetric])
      qed
    qed
  qed
qed



text \<open>Evaluating the parser on links to the storage host.\<close>

lemma urlparse_https_disk:
  assumes "rest = [] \<or> is_netloc_delim (hd rest)"
  shows "urlparse L (str ''https://disk.yandex.ru'' @ rest) =
           (case split_fragment_query (remove_unsafe rest) of
              (p, q, f) \<Rightarrow>
                Inr \<lparr>scheme = str ''https'', netloc = str ''disk.yandex.ru'',
                     path = (if 59 \<in> set p then fst (splitparams p) else p),
                     params = (if 59 \<in> set p then snd (splitparams p) else []),
                     query = q, fragment = f\<rparr>)"
proof -
  have "str ''https://disk.yandex.ru'' @ rest = str ''https'' @ str ''://disk.yandex.ru'' @ rest"
    by (simp add: str_def)
  then show ?thesis
    using urlparse_disk [of "''https''" rest L] assms by simp
qed

lemmas url_eval =
  str_def strip_def isspace_def startswith_def match_short_pattern_def match_disk_d_def
  match_literal_def is_token_char_def is_alnum_def is_lower_def is_upper_def is_digit_def
  is_netloc_delim_def remove_unsafe_def split_fragment_query_def before_def after_def
  match_hash_pattern_def is_hash_char_def



text \<open>
  Three more full links with a \<open>hash\<close> parameter.  The value is decoded twice, by the
  query parser and by \<open>unquote\<close>; a parameter with an empty value is dropped by the
  query parser; a link that matches the short-link pattern is returned as it is.
\<close>

lemma full_link_double_escape:
  "normalize_url L (str ''https://disk.yandex.ru/public/?hash=%2541'')
     = Inr (str ''https://disk.yandex.ru/public/?hash=A'')"
proof -
  let ?u = "str ''https://disk.yandex.ru/public/?hash=%2541''"
  have e: "?u = str ''https://disk.yandex.ru'' @ str ''/public/?hash=%2541''"
    by (simp add: str_def)
  have st: "strip ?u = ?u" and ne: "?u \<noteq> []" and ns: "\<not> match_short_pattern ?u"
    and h: "startswith ?u (str ''http'')"
    by (simp_all add: url_eval)
  have p: "urlparse L ?u
             = Inr \<lparr>scheme = str ''https'', netloc = str ''disk.yandex.ru'',
                    path = str ''/public/'', params = [], query = str ''hash=%2541'', fragment = []\<rparr>"
    unfolding e by (subst urlparse_https_disk) (simp_all add: url_eval)
  have q: "parse_qs (str ''hash=%2541'') (str ''hash'') = Some [str ''%41'']"
    by code_simp
  have u: "unquote (str ''%41'') = str ''A''"
    by code_simp
  have c: "str ''https://disk.yandex.ru/public/?hash='' @ str ''A''
             = str ''https://disk.yandex.ru/public/?hash=A''"
    by (simp add: str_def)
  show ?thesis
    by (simp add: normalize_url_def Let_def st ne ns h p contains_domain q u c)
qed

lemma full_link_blank_value:
  "normalize_url L (str ''https://disk.yandex.ru/public/?hash='')
     = Inl (URLParseError NoHashOrPath)"
proof -
  let ?u = "str ''https://disk.yandex.ru/public/?hash=''"
  have e: "?u = str ''https://disk.yandex.ru'' @ str ''/public/?hash=''"
    by (simp add: str_def)
  have st: "strip ?u = ?u" and ne: "?u \<noteq> []" and ns: "\<not> match_short_pattern ?u"
    and h: "startswith ?u (str ''http'')"
    by (simp_all add: url_eval)
  have p: "urlparse L ?u
             = Inr \<lparr>scheme = str ''https'', netloc = str ''disk.yandex.ru'',
                    path = str ''/public/'', params = [], query = str ''hash='', fragment = []\<rparr>"
    unfolding e by (subst urlparse_https_disk) (simp_all add: url_eval)
  have q: "parse_qs (str ''hash='') (str ''hash'') = None"
    by code_simp
  have d: "\<not> contains (str ''/d/'') (str ''/public/'')"
    by (simp add: str_def startswith_def)
  show ?thesis
    by (simp add: normalize_url_def Let_def st ne ns h p contains_domain q d)
qed

lemma short_link_with_hash:
  "normalize_url L (str ''https://disk.yandex.ru/d/abc?hash=xyz'')
     = Inr (str ''https://disk.yandex.ru/d/abc?hash=xyz'')"
proof -
  let ?u = "str ''https://disk.yandex.ru/d/abc?hash=xyz''"
  have st: "strip ?u = ?u" and ne: "?u \<noteq> []" and ns: "match_short_pattern ?u"
    by (simp_all add: url_eval)
  show ?thesis
    by (simp add: normalize_url_def Let_def st ne ns)
qed



text \<open>The link \<open>https://disk.yandex.ru/x/d/y\<close> has no \<open>hash\<close> parameter and does not match
  the pattern of a short link, and its path contains \<open>/d/\<close>.\<close>

lemma urlparse_fallback:
  "urlparse L (str ''https://disk.yandex.ru/x/d/y'')
     = Inr \<lparr>scheme = str ''https'', netloc = str ''disk.yandex.ru'',
            path = str ''/x/d/y'', params = [], query = [], fragment = []\<rparr>"
proof -
  have e: "str ''https://disk.yandex.ru/x/d/y'' = str ''https://disk.yandex.ru'' @ str ''/x/d/y''"
    by (simp add: str_def)
  show ?thesis
    unfolding e by (subst urlparse_https_disk) (simp_all add: url_eval)
qed

lemma fallback_path:
  "normalize_url L (str ''https://disk.yandex.ru/x/d/y'') = Inr (str ''https://disk.yandex.ru/x/d/y'')"
  "get_url_type L (str ''https://disk.yandex.ru/x/d/y'') = Inr (str ''unknown'')"
proof -
  let ?u = "str ''https://disk.yandex.ru/x/d/y''"
  have st: "strip ?u = ?u" and ne: "?u \<noteq> []" and ns: "\<not> match_short_pattern ?u"
    and nd: "match_disk_d ?u = None" and nh: "\<not> match_hash_pattern ?u"
    and h: "startswith ?u (str ''http'')"
    by (simp_all add: url_eval)
  have q: "parse_qs [] (str ''hash'') = None"
    by (simp add: parse_qs_def parse_qsl_def)
  have d: "contains (str ''/d/'') (str ''/x/d/y'')"
    by (simp add: str_def startswith_def)
  show "normalize_url L ?u = Inr ?u"
    by (simp add: normalize_url_def Let_def st ne ns h urlparse_fallback contains_domain q d)
  show "get_url_type L ?u = Inr (str ''unknown'')"
    by (simp add: get_url_type_def Let_def st nd nh h urlparse_fallback contains_domain q)
qed

text \<open>
  C10, as stated, fails: \<open>normalize_url\<close> accepts \<open>https://disk.yandex.ru/x/d/y\<close>, which
  \<open>get_url_type\<close> calls \<open>unknown\<close>.
\<close>

theorem get_url_type_counterexample:
  "get_url_type ascii_lib (str ''https://disk.yandex.ru/x/d/y'') = Inr (str ''unknown'')
   \<and> normalize_url ascii_lib (str ''https://disk.yandex.ru/x/d/y'')
       = Inr (str ''https://disk.yandex.ru/x/d/y'')"
  by (simp add: fallback_path)

text \<open>The other direction: \<open>httpabc\<close> is a \<open>hash\<close> for \<open>get_url_type\<close>, and
  \<open>normalize_url\<close> refuses it as a link to another host.\<close>

lemma urlparse_httpabc:
  "urlparse L (str ''httpabc'')
     = Inr \<lparr>scheme = [], netloc = [], path = str ''httpabc'', params = [], query = [], fragment = []\<rparr>"
proof -
  have r: "remove_unsafe (str ''httpabc'') = str ''httpabc''"
    by (simp add: url_eval)
  have s: "split_scheme (str ''httpabc'') = ([], str ''httpabc'')"
    by (simp add: split_scheme_def str_def)
  have t: "take 2 (str ''httpabc'') \<noteq> [47, 47]"
    by (simp add: str_def)
  have f: "split_fragment_query (str ''httpabc'') = (str ''httpabc'', [], [])"
    by (simp add: url_eval)
  have c: "checknetloc L [] = Inr ()"
    by (simp add: checknetloc_def)
  have u: "urlsplit L (str ''httpabc'')
             = Inr \<lparr>scheme = [], netloc = [], path = str ''httpabc'', params = [], query = [], fragment = []\<rparr>"
    unfolding urlsplit_def r s by (simp add: t f c)
  show ?thesis
    unfolding urlparse_def u by (simp add: str_def)
qed

lemma hash_with_http_prefix:
  "get_url_type L (str ''httpabc'') = Inr (str ''hash'')"
  "normalize_url L (str ''httpabc'') = Inl (URLParseError (NotDiskLink []))"
proof -
  let ?u = "str ''httpabc''"
  have st: "strip ?u = ?u" and ne: "?u \<noteq> []" and ns: "\<not> match_short_pattern ?u"
    and nd: "match_disk_d ?u = None" and mh: "match_hash_pattern ?u"
    and h: "startswith ?u (str ''http'')"
    by (simp_all add: url_eval)
  have d: "str ''disk.yandex.ru'' \<noteq> []"
    by (simp add: str_def)
  show "get_url_type L ?u = Inr (str ''hash'')"
    by (simp add: get_url_type_def Let_def st nd mh h urlparse_httpabc d)
  show "normalize_url L ?u = Inl (URLParseError (NotDiskLink []))"
    by (simp add: normalize_url_def Let_def st ne ns h urlparse_httpabc d)
qed

text \<open>The amended C10 on the two inputs above.\<close>

theorem get_url_type_and_normalize_url_witness:
  "get_url_type ascii_lib (str ''https://disk.yandex.ru/x/d/y'') = Inr (str ''unknown'')
   \<and> startswith (strip (str ''https://disk.yandex.ru/x/d/y'')) (str ''http'')
   \<and> (\<exists>r. normalize_url ascii_lib (str ''https://disk.yandex.ru/x/d/y'') = Inr r)
   \<and> get_url_type ascii_lib (str ''httpabc'') = Inr (str ''hash'')
   \<and> startswith (strip (str ''httpabc'')) (str ''http'')
   \<and> \<not> (\<exists>r. normalize_url ascii_lib (str ''httpabc'') = Inr r)"
proof -
  let ?u = "str ''https://disk.yandex.ru/x/d/y''"
  let ?w = "str ''httpabc''"
  have tu: "get_url_type ascii_lib ?u = Inr (str ''unknown'')"
    by (rule fallback_path)
  have hu: "startswith (strip ?u) (str ''http'')"
    by (simp add: url_eval)
  have su: "strip ?u = ?u"
    by (simp add: url_eval)
  have pu: "urlparse ascii_lib (strip ?u)
             = Inr \<lparr>scheme = str ''https'', netloc = str ''disk.yandex.ru'',
                    path = str ''/x/d/y'', params = [], query = [], fragment = []\<rparr>"
    unfolding su by (rule urlparse_fallback)
  have du: "contains (str ''/d/'') (str ''/x/d/y'')"
    by (simp add: str_def startswith_def)
  from get_url_type_and_normalize_url [OF tu] hu pu du
  have ru: "\<exists>r. normalize_url ascii_lib ?u = Inr r"
    by (simp add: contains_domain)
  have tw: "get_url_type ascii_lib ?w = Inr (str ''hash'')"
    by (rule hash_with_http_prefix)
  have hw: "startswith (strip ?w) (str ''http'')" and sw: "strip ?w = ?w"
    by (simp_all add: url_eval)
  have dw: "str ''disk.yandex.ru'' \<noteq> []"
    by (simp add: str_def)
  from get_url_type_and_normalize_url [OF tw] hw
  have rw: "\<not> (\<exists>r. normalize_url ascii_lib ?w = Inr r)"
    by (simp add: sw urlparse_httpabc dw str_distinct str_distinct [symmetric])
  from tu hu ru tw hw rw show ?thesis
    by (intro conjI)
qed

text \<open>An opening bracket without its partner in the network location.\<close>

lemma urlsplit_bracket: "urlsplit L (str ''http://['') = Inl ValueError"
proof -
  have r: "remove_unsafe (str ''http://['') = str ''http://'' @ [91]"
    by (simp add: url_eval)
  have n: "splitnetloc (str ''//'' @ [91]) = ([91], [])"
    by (simp add: splitnetloc_def str_def is_netloc_delim_def)
  have t: "take 2 (str ''//'' @ [91]) = [47, 47]"
    by (simp add: str_def)
  have c: "check_brackets L [91] = Inl ValueError"
    by (simp add: check_brackets_def)
  show ?thesis
    unfolding urlsplit_def r split_scheme_http
    by (simp only: prod.case t if_True n fst_conv c sum.case) simp
qed

text \<open>
  C3 on the input \<open>http://[\<close>, which has none of the three forms: \<open>normalize_url\<close>
  does not raise \<open>URLParseError\<close>; the \<open>ValueError\<close> of \<open>urlparse\<close> leaves it, and leaves
  \<open>is_valid_disk_url\<close> too, which catches \<open>URLParseError\<close> only.
\<close>

theorem normalize_url_invalid_ipv6:
  "normalize_url L (str ''http://['') = Inl ValueError
   \<and> is_valid_disk_url L (str ''http://['') = Inl ValueError"
proof -
  let ?u = "str ''http://[''"
  have st: "strip ?u = ?u" and ne: "?u \<noteq> []" and ns: "\<not> match_short_pattern ?u"
    and h: "startswith ?u (str ''http'')"
    by (simp_all add: url_eval)
  have n: "normalize_url L ?u = Inl ValueError"
    by (simp add: normalize_url_def Let_def st ne ns h urlparse_def urlsplit_bracket)
  then show ?thesis
    by (simp add: is_valid_disk_url_def)
qed

text \<open>\<open>get_url_type\<close> raises on the same input.\<close>

lemma get_url_type_invalid_ipv6: "get_url_type L (str ''http://['') = Inl ValueError"
proof -
  let ?u = "str ''http://[''"
  have st: "strip ?u = ?u" and nd: "match_disk_d ?u = None"
    and h: "startswith ?u (str ''http'')"
    by (simp_all add: url_eval)
  show ?thesis
    by (simp add: get_url_type_def Let_def st nd h urlparse_def urlsplit_bracket)
qed

text \<open>Empty input and input of white space only fail with \<open>URLParseError\<close>.\<close>

lemma normalize_url_blank:
  assumes "list_all isspace url"
  shows "normalize_url L url = Inl (URLParseError EmptyUrl)"
proof -
  have "strip url = []"
    using assms by (auto simp: strip_def list_all_iff dest: set_dropWhileD)
  then show ?thesis
    by (simp add: normalize_url_def Let_def)
qed


end
